theory Spec2Isabelle
  imports Main "HOL-Library.Signed_Division"
begin

section \<open>A small model of the shell\<close>

text \<open>
  Both shell scripts of the repository are straight-line code under \<^verbatim>\<open>set -e\<close>.
  What a script does is recorded as a list of events: the lines it writes to standard
  output and the external commands it runs. Colour escapes and emoji of the messages
  are left out of the texts; a number that a line displays is kept as a number.
  Every command runs in the foreground, so an event stands for a command from its start
  to its end. Writing to standard output and reading the clock with \<^verbatim>\<open>date\<close> are taken to
  succeed, and a container build is taken to leave the files of the working tree alone.
\<close>

datatype event =
    Echo string              \<comment> \<open>a line of text on standard output\<close>
  | Completed string int     \<comment> \<open>\<^verbatim>\<open>$build_type completed in ${duration}s\<close>\<close>
  | Row string int           \<comment> \<open>\<^verbatim>\<open>printf "%-25s %10s\n" label "${n}s"\<close>\<close>
  | Efficiency int           \<comment> \<open>\<^verbatim>\<open>Cache efficiency: ${cache_efficiency}%\<close>\<close>
  | Run "string list"        \<comment> \<open>an external command, as its argument words\<close>
  | Append string string     \<comment> \<open>\<^verbatim>\<open>echo text >> path\<close>\<close>

text \<open>
  The state of a run: the events so far, the files the script touches (path to
  content, as bytes), and how many clock readings and container builds have happened.
\<close>

record state =
  trace :: "event list"
  files :: "string \<rightharpoonup> string"
  reads :: nat
  builds :: nat

text \<open>
  What the script cannot decide itself: the readings of \<^verbatim>\<open>date +%s\<close>, the exit status
  of each container build, whether \<^verbatim>\<open>docker buildx version\<close> succeeds, the text
  that \<^verbatim>\<open>date\<close> prints, and the exit status of each clean-up command.
\<close>

record world =
  clock :: "nat \<Rightarrow> int"
  build_status :: "nat \<Rightarrow> nat"
  buildx :: bool
  date_text :: string
  cleanup_status :: "string list \<Rightarrow> nat"

text \<open>
  A command either finishes with an exit status (\<open>Done\<close>, the value of \<^verbatim>\<open>$?\<close>), or the
  whole shell has exited with a status (\<open>Exit\<close>).
\<close>

datatype outcome = Exit nat state | Done nat state

fun final :: "outcome \<Rightarrow> state" where
  "final (Exit n s) = s"
| "final (Done n s) = s"

fun completed :: "outcome \<Rightarrow> bool" where
  "completed (Exit n s) = False"
| "completed (Done n s) = True"

fun exit_status :: "outcome \<Rightarrow> nat" where
  "exit_status (Exit n s) = n"
| "exit_status (Done n s) = n"

text \<open>
  Sequencing under \<^verbatim>\<open>set -e\<close>: a simple command that finishes with a status other than
  0 makes the shell exit with that status. The continuation receives \<^verbatim>\<open>$?\<close>.
\<close>

definition seq :: "outcome \<Rightarrow> (nat \<Rightarrow> state \<Rightarrow> outcome) \<Rightarrow> outcome" where
  "seq r k = (case r of
      Exit n s \<Rightarrow> Exit n s
    | Done n s \<Rightarrow> if n = 0 then k n s else Exit n s)"

text \<open>A simple command in the last position of a function body is trapped as well.\<close>

definition errexit :: "outcome \<Rightarrow> outcome" where
  "errexit r = seq r Done"

text \<open>\<^verbatim>\<open>if c; then a; else b; fi\<close>: the status of the condition is tested, not trapped.\<close>

definition cond :: "outcome \<Rightarrow> (state \<Rightarrow> outcome) \<Rightarrow> (state \<Rightarrow> outcome) \<Rightarrow> outcome" where
  "cond r a b = (case r of
      Exit n s \<Rightarrow> Exit n s
    | Done n s \<Rightarrow> if n = 0 then a s else b s)"

definition emit :: "event \<Rightarrow> state \<Rightarrow> outcome" where
  "emit e s = Done 0 (s\<lparr>trace := trace s @ [e]\<rparr>)"

definition echo :: "string \<Rightarrow> state \<Rightarrow> outcome" where
  "echo t s = emit (Echo t) s"

text \<open>Splitting of an unquoted expansion into words at blanks, tabs and newlines.\<close>

definition is_ifs :: "char \<Rightarrow> bool" where
  "is_ifs c = (c = CHR '' '' \<or> c = CHR 0x09 \<or> c = CHR 0x0A)"

fun split_acc :: "string \<Rightarrow> string \<Rightarrow> string list" where
  "split_acc w [] = (if w = [] then [] else [w])"
| "split_acc w (c # cs) =
     (if is_ifs c then (if w = [] then split_acc [] cs else w # split_acc [] cs)
      else split_acc (w @ [c]) cs)"

definition word_split :: "string \<Rightarrow> string list" where
  "word_split t = split_acc [] t"

text \<open>\<^verbatim>\<open>echo text >> path\<close> appends the text and a newline, creating the file if needed.\<close>

definition append_line :: "string \<Rightarrow> string \<Rightarrow> state \<Rightarrow> outcome" where
  "append_line t p s =
     Done 0 (s\<lparr>trace := trace s @ [Append t p],
              files := (files s)(p \<mapsto> (case files s p of None \<Rightarrow> [] | Some c \<Rightarrow> c) @ t @ [CHR 0x0A])\<rparr>)"

text \<open>\<^verbatim>\<open>cp a b\<close> and \<^verbatim>\<open>mv a b\<close> fail with status 1 when \<open>a\<close> does not exist.\<close>

definition cp :: "string \<Rightarrow> string \<Rightarrow> state \<Rightarrow> outcome" where
  "cp a b s =
     (let s' = s\<lparr>trace := trace s @ [Run [''cp'', a, b]]\<rparr> in
      case files s a of
        None \<Rightarrow> Done 1 s'
      | Some c \<Rightarrow> Done 0 (s'\<lparr>files := (files s)(b \<mapsto> c)\<rparr>))"

definition mv :: "string \<Rightarrow> string \<Rightarrow> state \<Rightarrow> outcome" where
  "mv a b s =
     (let s' = s\<lparr>trace := trace s @ [Run [''mv'', a, b]]\<rparr> in
      case files s a of
        None \<Rightarrow> Done 1 s'
      | Some c \<Rightarrow> Done 0 (s'\<lparr>files := ((files s)(b \<mapsto> c))(a := None)\<rparr>))"

section \<open>The measurement script\<close>

definition IMAGE_NAME :: string where
  "IMAGE_NAME = ''test-build-cache''"

text \<open>\<^verbatim>\<open>$(date +%s)\<close>: the next reading of the clock, in seconds.\<close>

definition date_s :: "world \<Rightarrow> state \<Rightarrow> int \<times> state" where
  "date_s w s =
     (clock w (reads s), s\<lparr>trace := trace s @ [Run [''date'', ''+%s'']], reads := Suc (reads s)\<rparr>)"

text \<open>A container build, given as its command words: the status comes from the world.\<close>

definition run_build :: "world \<Rightarrow> string list \<Rightarrow> state \<Rightarrow> outcome" where
  "run_build w ws s =
     Done (build_status w (builds s))
          (s\<lparr>trace := trace s @ [Run ws], builds := Suc (builds s)\<rparr>)"

text \<open>
  \<^verbatim>\<open>return n\<close>: the status of a function is the low eight bits of the number given to
  \<^verbatim>\<open>return\<close>.
\<close>

definition low8 :: "int \<Rightarrow> nat" where
  "low8 n = nat (n mod 256)"

definition return :: "int \<Rightarrow> state \<Rightarrow> outcome" where
  "return n s = Done (low8 n) s"

text \<open>\<^verbatim>\<open>time_build\<close>, which ends with \<^verbatim>\<open>return $duration\<close>.\<close>

definition time_build :: "world \<Rightarrow> string \<Rightarrow> string \<Rightarrow> state \<Rightarrow> outcome" where
  "time_build w build_type extra_args s0 =
     seq (echo (''Testing: '' @ build_type) s0) (\<lambda>_ s.
     seq (echo (''Command: docker build '' @ extra_args @ '' -t '' @ IMAGE_NAME @ '' .'') s) (\<lambda>_ s.
     seq (echo [] s) (\<lambda>_ s.
     case date_s w s of (start_time, s) \<Rightarrow>
     seq (run_build w (''docker'' # ''build'' # word_split extra_args @ [''-t'', IMAGE_NAME, ''.'']) s) (\<lambda>_ s.
     case date_s w s of (end_time, s) \<Rightarrow>
     let duration = end_time - start_time in
     seq (emit (Completed build_type duration) s) (\<lambda>_ s.
     seq (echo [] s) (\<lambda>_ s.
     return duration s))))))"

definition test1 :: "world \<Rightarrow> state \<Rightarrow> outcome" where
  "test1 w s0 =
     seq (echo ''Test 1: Clean build (no cache)'' s0) (\<lambda>_ s.
     time_build w ''Clean build'' ''--no-cache'' s)"

definition test2 :: "world \<Rightarrow> state \<Rightarrow> outcome" where
  "test2 w s0 =
     seq (echo ''Test 2: Rebuild with full cache'' s0) (\<lambda>_ s.
     time_build w ''Cached build'' [] s)"

definition test3 :: "world \<Rightarrow> state \<Rightarrow> outcome" where
  "test3 w s0 =
     seq (echo ''Test 3: Modify source code'' s0) (\<lambda>_ s.
     seq (append_line (''// Cache test modification at '' @ date_text w) ''src/routes.ts''
            (s\<lparr>trace := trace s @ [Run [''date'']]\<rparr>)) (\<lambda>_ s.
     time_build w ''Source code change'' [] s))"

definition test4 :: "world \<Rightarrow> state \<Rightarrow> outcome" where
  "test4 w s0 =
     seq (echo ''Test 4: Modify package.json'' s0) (\<lambda>_ s.
     seq (cp ''package.json'' ''package.json.backup'' s) (\<lambda>_ s.
     seq (append_line ''  \"comment\": \"cache test modification\",'' ''package.json'' s) (\<lambda>_ s.
     time_build w ''Dependency change'' [] s)))"

definition buildx_version :: "world \<Rightarrow> state \<Rightarrow> outcome" where
  "buildx_version w s =
     Done (if buildx w then 0 else 1) (s\<lparr>trace := trace s @ [Run [''docker'', ''buildx'', ''version'']]\<rparr>)"

text \<open>Test 5 hands the value of \<^verbatim>\<open>buildkit_time\<close> to the rest of the script.\<close>

definition test5 :: "world \<Rightarrow> state \<Rightarrow> (int \<Rightarrow> state \<Rightarrow> outcome) \<Rightarrow> outcome" where
  "test5 w s0 k =
     cond (buildx_version w s0)
       (\<lambda>s. seq (echo ''Test 5: BuildKit with cache mount'' s) (\<lambda>_ s.
             seq (time_build w ''BuildKit build'' ''--builder=buildx'' s) (\<lambda>buildkit_time s.
             k (int buildkit_time) s)))
       (\<lambda>s. seq (echo ''BuildKit not available, skipping test 5'' s) (\<lambda>_ s.
             k 0 s))"

text \<open>
  Shell arithmetic works on signed 64-bit integers and wraps around; a number read from
  a variable wraps in the same way.
\<close>

definition wrap64 :: "int \<Rightarrow> int" where
  "wrap64 n = (n + 2 ^ 63) mod 2 ^ 64 - 2 ^ 63"

definition in64 :: "int \<Rightarrow> bool" where
  "in64 n = (- (2 ^ 63) \<le> n \<and> n < 2 ^ 63)"

text \<open>
  \<^verbatim>\<open>[ a -gt b ]\<close>: status 0 when \<open>a\<close> is greater, 1 when it is not, and 2 (with a message
  on standard error) when one of the numbers does not fit into 64 bits.
\<close>

definition test_gt :: "int \<Rightarrow> int \<Rightarrow> state \<Rightarrow> outcome" where
  "test_gt a b s = Done (if in64 a \<and> in64 b then (if a > b then 0 else 1) else 2) s"

text \<open>
  The cache-efficiency step:
  \<^verbatim>\<open>cache_efficiency=$(( (clean_time - cached_time) * 100 / clean_time ))\<close> under the guard
  \<^verbatim>\<open>[ $clean_time -gt 0 ]\<close>. The division truncates towards zero.
\<close>

definition cache_efficiency :: "int \<Rightarrow> int \<Rightarrow> state \<Rightarrow> outcome" where
  "cache_efficiency clean_time cached_time s0 =
     cond (test_gt clean_time 0 s0)
       (\<lambda>s.
          let cache_efficiency =
                wrap64 (wrap64 (wrap64 (wrap64 clean_time - wrap64 cached_time) * 100)
                          sdiv wrap64 clean_time) in
          seq (echo [] s) (\<lambda>_ s.
          emit (Efficiency cache_efficiency) s))
       (\<lambda>s. Done 0 s)"

definition results_summary :: "int \<Rightarrow> int \<Rightarrow> int \<Rightarrow> int \<Rightarrow> int \<Rightarrow> state \<Rightarrow> outcome" where
  "results_summary clean_time cached_time source_change_time deps_change_time buildkit_time s0 =
     seq (echo ''RESULTS SUMMARY'' s0) (\<lambda>_ s.
     seq (echo ''=================================================='' s) (\<lambda>_ s.
     seq (echo ''Build Type                  Time (s)'' s) (\<lambda>_ s.
     seq (echo ''------------------------------------------'' s) (\<lambda>_ s.
     seq (emit (Row ''Clean build'' clean_time) s) (\<lambda>_ s.
     seq (emit (Row ''Full cache'' cached_time) s) (\<lambda>_ s.
     seq (emit (Row ''Source change'' source_change_time) s) (\<lambda>_ s.
     seq (emit (Row ''Deps change'' deps_change_time) s) (\<lambda>_ s.
     seq (cond (test_gt buildkit_time 0 s)
            (\<lambda>s. emit (Row ''BuildKit'' buildkit_time) s)
            (\<lambda>s. Done 0 s)) (\<lambda>_ s.
     seq (cache_efficiency clean_time cached_time s) (\<lambda>_ s.
     seq (echo [] s) (\<lambda>_ s.
     seq (echo ''Cache testing complete!'' s) (\<lambda>_ s.
     seq (echo ''Tips:'' s) (\<lambda>_ s.
     seq (echo ''  - Full cache builds should be significantly faster'' s) (\<lambda>_ s.
     seq (echo ''  - Source changes should only rebuild final stages'' s) (\<lambda>_ s.
     seq (echo ''  - Dependency changes should rebuild from deps layer'' s) (\<lambda>_ s.
     echo ''  - Use 'docker system df' to see cache usage'' s))))))))))))))))"

text \<open>The whole script; each \<^verbatim>\<open>x_time=$?\<close> binds the status of the command before it.\<close>

definition script :: "world \<Rightarrow> state \<Rightarrow> outcome" where
  "script w s0 =
     seq (echo ''Docker Build Cache Testing Script'' s0) (\<lambda>_ s.
     seq (echo ''=================================================='' s) (\<lambda>_ s.
     seq (test1 w s) (\<lambda>clean_time s.
     seq (test2 w s) (\<lambda>cached_time s.
     seq (test3 w s) (\<lambda>source_change_time s.
     seq (test4 w s) (\<lambda>deps_change_time s.
     seq (mv ''package.json.backup'' ''package.json'' s) (\<lambda>_ s.
     test5 w s (\<lambda>buildkit_time s.
     results_summary (int clean_time) (int cached_time) (int source_change_time)
       (int deps_change_time) buildkit_time s))))))))"

text \<open>The state in which a script starts, given the files of the working tree.\<close>

definition init :: "(string \<rightharpoonup> string) \<Rightarrow> state" where
  "init fs = \<lparr>trace = [], files = fs, reads = 0, builds = 0\<rparr>"

text \<open>
  The first \<open>k\<close> timed builds pass: each build has status 0, and so has \<^verbatim>\<open>time_build\<close>,
  whose status is the low eight bits of the measured duration. Counted from 0, timed
  build \<open>i\<close> takes the clock readings \<open>2 * i\<close> and \<open>2 * i + 1\<close>.
\<close>

primrec tests_pass :: "nat \<Rightarrow> world \<Rightarrow> bool" where
  "tests_pass 0 w = True"
| "tests_pass (Suc k) w =
     (tests_pass k w \<and> build_status w k = 0 \<and> low8 (clock w (2 * k + 1) - clock w (2 * k)) = 0)"

text \<open>No command of the script has a status other than 0.\<close>

definition passes :: "world \<Rightarrow> (string \<rightharpoonup> string) \<Rightarrow> bool" where
  "passes w fs =
     (tests_pass 4 w \<and> fs ''package.json'' \<noteq> None \<and> (buildx w \<longrightarrow> tests_pass 5 w))"

text \<open>What a run printed as cache efficiency, and the rows of its summary.\<close>

fun efficiencies :: "event list \<Rightarrow> int list" where
  "efficiencies [] = []"
| "efficiencies (Efficiency v # es) = v # efficiencies es"
| "efficiencies (e # es) = efficiencies es"

fun rows :: "event list \<Rightarrow> (string \<times> int) list" where
  "rows [] = []"
| "rows (Row l v # es) = (l, v) # rows es"
| "rows (e # es) = rows es"

fun durations :: "event list \<Rightarrow> (string \<times> int) list" where
  "durations [] = []"
| "durations (Completed l v # es) = (l, v) # durations es"
| "durations (e # es) = durations es"

text \<open>
  The events that act on the system: every external command but \<^verbatim>\<open>date\<close>, and every
  change of a file.
\<close>

definition acting :: "event \<Rightarrow> bool" where
  "acting e = (case e of
      Run ws \<Rightarrow> take 1 ws \<noteq> [''date'']
    | Append t p \<Rightarrow> True
    | _ \<Rightarrow> False)"

definition actions :: "outcome \<Rightarrow> event list" where
  "actions r = filter acting (trace (final r))"

text \<open>
  \<open>steps A L r\<close>: the run \<open>r\<close> started after the actions \<open>A\<close>, has added the first few
  actions of \<open>L\<close> in their order, and all of \<open>L\<close> when it ran to its end.
\<close>

definition steps :: "event list \<Rightarrow> event list \<Rightarrow> outcome \<Rightarrow> bool" where
  "steps A L r = ((\<exists>n. actions r = A @ take n L) \<and> (completed r \<longrightarrow> actions r = A @ L))"

section \<open>The scenario script\<close>

text \<open>
  A container-build invocation is \<^verbatim>\<open>docker build\<close> or \<^verbatim>\<open>docker buildx build\<close>, possibly
  after variable assignments such as \<^verbatim>\<open>DOCKER_BUILDKIT=1\<close>.
\<close>

definition is_assignment :: "string \<Rightarrow> bool" where
  "is_assignment t = (CHR ''='' \<in> set t)"

definition is_build :: "event \<Rightarrow> bool" where
  "is_build e = (case e of
      Run ws \<Rightarrow>
        (let c = dropWhile is_assignment ws
         in take 2 c = [''docker'', ''build''] \<or> take 3 c = [''docker'', ''buildx'', ''build''])
    | _ \<Rightarrow> False)"

definition build_invocations :: "outcome \<Rightarrow> event list" where
  "build_invocations r = filter is_build (trace (final r))"

text \<open>A clean-up command, and \<^verbatim>\<open>c || true\<close>.\<close>

definition run_cleanup :: "world \<Rightarrow> string list \<Rightarrow> state \<Rightarrow> outcome" where
  "run_cleanup w ws s = Done (cleanup_status w ws) (s\<lparr>trace := trace s @ [Run ws]\<rparr>)"

definition or_true :: "outcome \<Rightarrow> outcome" where
  "or_true r = (case r of Exit n s \<Rightarrow> Exit n s | Done n s \<Rightarrow> Done 0 s)"

definition show_usage :: "string \<Rightarrow> state \<Rightarrow> outcome" where
  "show_usage script_name s0 =
     seq (echo ''Available scenarios:'' s0) (\<lambda>_ s.
     seq (echo [] s) (\<lambda>_ s.
     seq (echo ''  basic          - Standard docker build'' s) (\<lambda>_ s.
     seq (echo ''  no-cache       - Build without using cache'' s) (\<lambda>_ s.
     seq (echo ''  target         - Build specific stage only'' s) (\<lambda>_ s.
     seq (echo ''  buildkit       - Use BuildKit features'' s) (\<lambda>_ s.
     seq (echo ''  multi-platform - Multi-platform build'' s) (\<lambda>_ s.
     seq (echo ''  inline-cache   - Build with inline cache export'' s) (\<lambda>_ s.
     seq (echo ''  registry-cache - Use registry for cache'' s) (\<lambda>_ s.
     seq (echo ''  clean          - Clean up images and cache'' s) (\<lambda>_ s.
     seq (echo ''  all            - Run all scenarios'' s) (\<lambda>_ s.
     seq (echo [] s) (\<lambda>_ s.
     echo (''Usage: '' @ script_name @ '' <scenario>'') s))))))))))))"

definition basic_build :: "world \<Rightarrow> state \<Rightarrow> outcome" where
  "basic_build w s0 =
     seq (echo ''Basic Build'' s0) (\<lambda>_ s.
     errexit (run_build w [''docker'', ''build'', ''-t'', IMAGE_NAME, ''.''] s))"

definition no_cache_build :: "world \<Rightarrow> state \<Rightarrow> outcome" where
  "no_cache_build w s0 =
     seq (echo ''No Cache Build'' s0) (\<lambda>_ s.
     errexit (run_build w [''docker'', ''build'', ''--no-cache'', ''-t'', IMAGE_NAME, ''.''] s))"

definition target_build :: "world \<Rightarrow> state \<Rightarrow> outcome" where
  "target_build w s0 =
     seq (echo ''Target Build (deps stage only)'' s0) (\<lambda>_ s.
     errexit (run_build w [''docker'', ''build'', ''--target'', ''deps'', ''-t'', IMAGE_NAME @ ''-deps'', ''.''] s))"

definition buildkit_build :: "world \<Rightarrow> state \<Rightarrow> outcome" where
  "buildkit_build w s0 =
     seq (echo ''BuildKit Build'' s0) (\<lambda>_ s.
     cond (buildx_version w s)
       (\<lambda>s. errexit (run_build w [''DOCKER_BUILDKIT=1'', ''docker'', ''build'', ''-t'', IMAGE_NAME, ''.''] s))
       (\<lambda>s. seq (echo ''BuildKit not available, using standard build'' s) (\<lambda>_ s.
             errexit (run_build w [''docker'', ''build'', ''-t'', IMAGE_NAME, ''.''] s))))"

definition multi_platform_build :: "world \<Rightarrow> state \<Rightarrow> outcome" where
  "multi_platform_build w s0 =
     seq (echo ''Multi-platform Build'' s0) (\<lambda>_ s.
     cond (buildx_version w s)
       (\<lambda>s. errexit (run_build w [''docker'', ''buildx'', ''build'', ''--platform'',
                         ''linux/amd64,linux/arm64'', ''-t'', IMAGE_NAME, ''.''] s))
       (\<lambda>s. echo ''Buildx not available, skipping multi-platform build'' s))"

definition inline_cache_build :: "world \<Rightarrow> state \<Rightarrow> outcome" where
  "inline_cache_build w s0 =
     seq (echo ''Inline Cache Build'' s0) (\<lambda>_ s.
     cond (buildx_version w s)
       (\<lambda>s. errexit (run_build w [''docker'', ''buildx'', ''build'', ''--cache-to'', ''type=inline'',
                         ''--cache-from'', IMAGE_NAME, ''-t'', IMAGE_NAME, ''--load'', ''.''] s))
       (\<lambda>s. seq (echo ''Buildx not available, using standard build'' s) (\<lambda>_ s.
             errexit (run_build w [''docker'', ''build'', ''-t'', IMAGE_NAME, ''.''] s))))"

definition registry_cache_build :: "world \<Rightarrow> state \<Rightarrow> outcome" where
  "registry_cache_build w s0 =
     seq (echo ''Registry Cache Build (simulated)'' s0) (\<lambda>_ s.
     seq (echo ''Note: This would typically push/pull from a registry'' s) (\<lambda>_ s.
     cond (buildx_version w s)
       (\<lambda>s. errexit (run_build w [''docker'', ''buildx'', ''build'',
                         ''--cache-to'', ''type=local,dest=/tmp/docker-cache'',
                         ''--cache-from'', ''type=local,src=/tmp/docker-cache'',
                         ''-t'', IMAGE_NAME, ''--load'', ''.''] s))
       (\<lambda>s. seq (echo ''Buildx not available, using standard build'' s) (\<lambda>_ s.
             errexit (run_build w [''docker'', ''build'', ''-t'', IMAGE_NAME, ''.''] s)))))"

definition clean_up :: "world \<Rightarrow> state \<Rightarrow> outcome" where
  "clean_up w s0 =
     seq (echo ''Cleaning up'' s0) (\<lambda>_ s.
     seq (echo ''Removing test images...'' s) (\<lambda>_ s.
     seq (or_true (run_cleanup w [''docker'', ''rmi'', ''-f'', IMAGE_NAME] s)) (\<lambda>_ s.
     seq (or_true (run_cleanup w [''docker'', ''rmi'', ''-f'', IMAGE_NAME @ ''-deps''] s)) (\<lambda>_ s.
     seq (echo ''Pruning build cache...'' s) (\<lambda>_ s.
     seq (or_true (run_cleanup w [''docker'', ''builder'', ''prune'', ''-f''] s)) (\<lambda>_ s.
     seq (echo ''Removing temporary cache...'' s) (\<lambda>_ s.
     seq (or_true (run_cleanup w [''rm'', ''-rf'', ''/tmp/docker-cache''] s)) (\<lambda>_ s.
     echo ''Cleanup complete'' s))))))))"

definition run_all :: "world \<Rightarrow> state \<Rightarrow> outcome" where
  "run_all w s0 =
     seq (echo ''Running all build scenarios'' s0) (\<lambda>_ s.
     seq (echo [] s) (\<lambda>_ s.
     seq (clean_up w s) (\<lambda>_ s.
     seq (basic_build w s) (\<lambda>_ s.
     seq (echo [] s) (\<lambda>_ s.
     seq (no_cache_build w s) (\<lambda>_ s.
     seq (echo [] s) (\<lambda>_ s.
     seq (target_build w s) (\<lambda>_ s.
     seq (echo [] s) (\<lambda>_ s.
     seq (buildkit_build w s) (\<lambda>_ s.
     seq (echo [] s) (\<lambda>_ s.
     seq (multi_platform_build w s) (\<lambda>_ s.
     seq (echo [] s) (\<lambda>_ s.
     seq (inline_cache_build w s) (\<lambda>_ s.
     seq (echo [] s) (\<lambda>_ s.
     seq (registry_cache_build w s) (\<lambda>_ s.
     seq (echo [] s) (\<lambda>_ s.
     echo ''All scenarios completed'' s)))))))))))))))))"

text \<open>
  The main part: the banner, then the \<^verbatim>\<open>case\<close> on \<^verbatim>\<open>"${1:-}"\<close>, which is the first
  argument, or the empty string when there is none. The branches are tried in the order
  of the script.
\<close>

definition first_arg :: "string list \<Rightarrow> string" where
  "first_arg args = (case args of [] \<Rightarrow> [] | a # _ \<Rightarrow> a)"

definition banner :: "state \<Rightarrow> outcome" where
  "banner s0 =
     seq (echo ''Docker Build Scenarios'' s0) (\<lambda>_ s.
     echo ''================================'' s)"

definition scenarios :: "string \<Rightarrow> string list \<Rightarrow> world \<Rightarrow> state \<Rightarrow> outcome" where
  "scenarios script_name args w s0 =
     seq (banner s0) (\<lambda>_ s.
     let a = first_arg args in
     if a = ''basic'' then basic_build w s
     else if a = ''no-cache'' then no_cache_build w s
     else if a = ''target'' then target_build w s
     else if a = ''buildkit'' then buildkit_build w s
     else if a = ''multi-platform'' then multi_platform_build w s
     else if a = ''inline-cache'' then inline_cache_build w s
     else if a = ''registry-cache'' then registry_cache_build w s
     else if a = ''clean'' then clean_up w s
     else if a = ''all'' then run_all w s
     else seq (show_usage script_name s) (\<lambda>_ s. Exit 1 s))"

section \<open>The HTTP service\<close>

text \<open>
  Values handed to \<^verbatim>\<open>res.json\<close>. Numbers that the handlers compute are integers
  (differences of \<^verbatim>\<open>Date.now()\<close> readings, in milliseconds). As in the scripts, the emoji
  at the head of a message is left out of its text.
\<close>

datatype json =
    JNull
  | JBool bool
  | JNum int
  | JStr string
  | JObj "(string \<times> json) list"

fun json_get :: "string \<Rightarrow> json \<Rightarrow> json option" where
  "json_get k (JObj kvs) = map_of kvs k"
| "json_get k v = None"

text \<open>
  The configuration module. It is evaluated when the module is loaded, from the
  environment of the process and the time of loading (\<^verbatim>\<open>new Date().toISOString()\<close>).
  A JavaScript string is falsy exactly when it is empty, so \<^verbatim>\<open>x || d\<close> is \<open>d\<close> for an
  unset or empty variable. The port is read by \<^verbatim>\<open>listen\<close> only and is left out.
\<close>

record build_info =
  version :: string
  buildTime :: string
  gitCommit :: string

record feature_flags =
  enableMetrics :: bool
  enableDebugMode :: bool
  enableCaching :: bool

record config =
  environment :: string
  buildInfo :: build_info
  features :: feature_flags

definition or_default :: "string option \<Rightarrow> string \<Rightarrow> string" where
  "or_default x d = (case x of None \<Rightarrow> d | Some v \<Rightarrow> if v = [] then d else v)"

definition load_config :: "(string \<rightharpoonup> string) \<Rightarrow> string \<Rightarrow> config" where
  "load_config env load_time =
     \<lparr>environment = or_default (env ''NODE_ENV'') ''development'',
      buildInfo = \<lparr>version = ''1.0.0'',
                   buildTime = load_time,
                   gitCommit = or_default (env ''GIT_COMMIT'') ''unknown''\<rparr>,
      features = \<lparr>enableMetrics = (env ''ENABLE_METRICS'' = Some ''true''),
                  enableDebugMode = (env ''DEBUG'' = Some ''true''),
                  enableCaching = (env ''ENABLE_CACHING'' \<noteq> Some ''false'')\<rparr>\<rparr>"

definition json_of_build_info :: "build_info \<Rightarrow> json" where
  "json_of_build_info b =
     JObj [(''version'', JStr (version b)), (''buildTime'', JStr (buildTime b)),
           (''gitCommit'', JStr (gitCommit b))]"

definition json_of_features :: "feature_flags \<Rightarrow> json" where
  "json_of_features f =
     JObj [(''enableMetrics'', JBool (enableMetrics f)),
           (''enableDebugMode'', JBool (enableDebugMode f)),
           (''enableCaching'', JBool (enableCaching f))]"

text \<open>
  The response object of the web framework: \<^verbatim>\<open>res.status\<close> sets the status code
  (200 at first), \<^verbatim>\<open>res.json\<close> sends a JSON body, \<^verbatim>\<open>res.send\<close> a text body. Every
  body sent is recorded, so that a handler that answered twice would show two.
\<close>

datatype body = JsonBody json | TextBody string

record response =
  code :: nat
  content :: body

record res =
  statusCode :: nat
  sent :: "response list"

definition new_res :: res where
  "new_res = \<lparr>statusCode = 200, sent = []\<rparr>"

definition res_status :: "nat \<Rightarrow> res \<Rightarrow> res" where
  "res_status c r = r\<lparr>statusCode := c\<rparr>"

definition res_json :: "json \<Rightarrow> res \<Rightarrow> res" where
  "res_json v r = r\<lparr>sent := sent r @ [\<lparr>code = statusCode r, content = JsonBody v\<rparr>]\<rparr>"

definition res_send :: "string \<Rightarrow> res \<Rightarrow> res" where
  "res_send t r = r\<lparr>sent := sent r @ [\<lparr>code = statusCode r, content = TextBody t\<rparr>]\<rparr>"

fun is_json :: "body \<Rightarrow> bool" where
  "is_json (JsonBody v) = True"
| "is_json (TextBody t) = False"

text \<open>
  What a handler reads from the runtime while it serves one request: the properties of
  \<^verbatim>\<open>process\<close>, the text of \<^verbatim>\<open>new Date().toISOString()\<close>, and the readings of
  \<^verbatim>\<open>Date.now()\<close> in the order in which they are taken.
\<close>

record runtime =
  nodeVersion :: string
  platform :: string
  arch :: string
  uptime :: json
  memoryUsage :: json
  env :: "string \<rightharpoonup> string"
  isoString :: string
  Date_now :: "nat \<Rightarrow> int"

text \<open>
  A handler returns the response object and the timers it has set; a timer is a delay
  in milliseconds and a callback, which runs later against the same response object.
\<close>

type_synonym timer = "nat \<times> (runtime \<Rightarrow> res \<Rightarrow> res)"

definition home :: "config \<Rightarrow> runtime \<Rightarrow> res \<Rightarrow> res \<times> timer list" where
  "home cfg rt r =
     (res_json (JObj
        [(''message'', JStr ''Docker Build Cache Test Application''),
         (''buildInfo'', json_of_build_info (buildInfo cfg)),
         (''features'', json_of_features (features cfg)),
         (''links'', JObj [(''health'', JStr ''/health''), (''info'', JStr ''/info''),
                          (''simulate'', JStr ''/simulate'')])]) r, [])"

definition info :: "config \<Rightarrow> runtime \<Rightarrow> res \<Rightarrow> res \<times> timer list" where
  "info cfg rt r =
     (res_json (JObj
        [(''name'', JStr ''test-build-cache''),
         (''description'', JStr ''Application for testing Docker build caching strategies''),
         (''buildInfo'', json_of_build_info (buildInfo cfg)),
         (''features'', json_of_features (features cfg)),
         (''system'', JObj [(''nodeVersion'', JStr (nodeVersion rt)),
                           (''platform'', JStr (platform rt)),
                           (''arch'', JStr (arch rt)),
                           (''uptime'', uptime rt),
                           (''memoryUsage'', memoryUsage rt)])]) r, [])"

definition health :: "runtime \<Rightarrow> res \<Rightarrow> res \<times> timer list" where
  "health rt r =
     (res_json (JObj
        [(''status'', JStr ''healthy''),
         (''timestamp'', JStr (isoString rt)),
         (''uptime'', uptime rt),
         (''environment'', JStr (or_default (env rt ''NODE_ENV'') ''development''))]) r, [])"

text \<open>
  The handler of \<^verbatim>\<open>/simulate/:task\<close>. A branch of its \<^verbatim>\<open>switch\<close> either breaks, and
  control reaches the \<^verbatim>\<open>res.json\<close> after the switch, or returns from the handler. The
  loop of the \<^verbatim>\<open>cpu\<close> branch and the array of the \<^verbatim>\<open>memory\<close> branch compute local values
  that nothing reads; they are bounded and leave no trace in the response.
\<close>

datatype 'a flow = Break | Return 'a

definition simulate :: "string \<Rightarrow> runtime \<Rightarrow> res \<Rightarrow> res \<times> timer list" where
  "simulate task rt r =
     (let startTime = Date_now rt 0 in
      case (if task = ''cpu'' then Break
            else if task = ''memory'' then Break
            else if task = ''io'' then
              Return (r, [(100, \<lambda>rt r.
                res_json (JObj [(''task'', JStr task),
                                (''duration'', JNum (Date_now rt 1 - startTime)),
                                (''message'', JStr ''I/O simulation completed'')]) r)])
            else
              Return (res_json (JObj [(''error'', JStr ''Unknown task. Use: cpu, memory, or io'')])
                        (res_status 400 r), []))
      of
        Return x \<Rightarrow> x
      | Break \<Rightarrow>
          (res_json (JObj [(''task'', JStr task),
                           (''duration'', JNum (Date_now rt 1 - startTime)),
                           (''message'', JStr (task @ '' simulation completed''))]) r, []))"

text \<open>
  The routes of the service. The event loop runs every timer a handler has set, once;
  the responses of a request are what has been sent when no timer is left.
\<close>

datatype route = Home | Info | Simulate string | Health

definition dispatch :: "config \<Rightarrow> route \<Rightarrow> runtime \<Rightarrow> res \<Rightarrow> res \<times> timer list" where
  "dispatch cfg q rt r = (case q of
      Home \<Rightarrow> home cfg rt r
    | Info \<Rightarrow> info cfg rt r
    | Simulate task \<Rightarrow> simulate task rt r
    | Health \<Rightarrow> health rt r)"

definition run_timers :: "runtime \<Rightarrow> timer list \<Rightarrow> res \<Rightarrow> res" where
  "run_timers rt ts r = fold (\<lambda>(delay, callback) r. callback rt r) ts r"

definition handle :: "config \<Rightarrow> route \<Rightarrow> runtime \<Rightarrow> response list" where
  "handle cfg q rt = (case dispatch cfg q rt new_res of (r, ts) \<Rightarrow> sent (run_timers rt ts r))"

text \<open>
  A server process: the configuration is computed when the modules are loaded, and
  every request is then served with it.
\<close>

definition server :: "(string \<rightharpoonup> string) \<Rightarrow> string \<Rightarrow> (route \<times> runtime) list \<Rightarrow> response list list" where
  "server env0 load_time requests =
     (let cfg = load_config env0 load_time
      in map (\<lambda>(q, rt). handle cfg q rt) requests)"

text \<open>What a response carries as \<^verbatim>\<open>buildInfo\<close> and \<^verbatim>\<open>features\<close>.\<close>

fun carried :: "response \<Rightarrow> json option \<times> json option" where
  "carried r = (case content r of
      JsonBody v \<Rightarrow> (json_get ''buildInfo'' v, json_get ''features'' v)
    | TextBody t \<Rightarrow> (None, None))"

section \<open>Example inputs\<close>

text \<open>A working tree with the two files the measurement script changes.\<close>

definition repo_files :: "string \<rightharpoonup> string" where
  "repo_files = [''package.json'' \<mapsto> ''{ }'', ''src/routes.ts'' \<mapsto> ''export {}'']"

text \<open>Every build succeeds within the second it started in; there is no buildx.\<close>

definition instant_world :: world where
  "instant_world =
     \<lparr>clock = (\<lambda>n. 1700000000), build_status = (\<lambda>n. 0), buildx = False,
      date_text = ''Tue Nov 14 22:13:20 UTC 2023'', cleanup_status = (\<lambda>ws. 0)\<rparr>"

text \<open>The same with buildx installed.\<close>

definition buildx_world :: world where
  "buildx_world = instant_world\<lparr>buildx := True\<rparr>"

text \<open>The clean build takes 256 seconds, every later build less than one.\<close>

definition slow_clean_world :: world where
  "slow_clean_world = instant_world\<lparr>clock := (\<lambda>n. if n = 0 then 1700000000 else 1700000256)\<rparr>"

text \<open>The clean build takes five seconds.\<close>

definition five_second_world :: world where
  "five_second_world = instant_world\<lparr>clock := (\<lambda>n. if n = 0 then 1700000000 else 1700000005)\<rparr>"

text \<open>The fourth build, the one after the change of \<^verbatim>\<open>package.json\<close>, fails.\<close>

definition failing_deps_world :: world where
  "failing_deps_world = instant_world\<lparr>build_status := (\<lambda>n. if n = 3 then 1 else 0)\<rparr>"

text \<open>A configuration loaded from an empty environment.\<close>

definition example_config :: config where
  "example_config = load_config Map.empty ''2023-11-14T22:13:20.000Z''"

text \<open>A runtime in which a request takes 120 milliseconds.\<close>

definition example_runtime :: runtime where
  "example_runtime =
     \<lparr>nodeVersion = ''v18.19.0'', platform = ''linux'', arch = ''x64'',
      uptime = JNum 12, memoryUsage = JObj [(''rss'', JNum 50000000)],
      env = Map.empty, isoString = ''2023-11-14T22:13:20.000Z'',
      Date_now = (\<lambda>n. 1700000000000 + 120 * int n)\<rparr>"

text \<open>The same runtime with a clock that is set back by 5 milliseconds during the request.\<close>

definition clock_set_back_runtime :: runtime where
  "clock_set_back_runtime = example_runtime\<lparr>Date_now := (\<lambda>n. 1700000000000 - 5 * int n)\<rparr>"

section \<open>Properties of the measurement script\<close>

subsection \<open>Rules of the shell model\<close>


lemma seq_Exit: "seq (Exit n s) k = Exit n s" by (simp add: seq_def)
lemma seq_Done: "seq (Done n s) k = (if n = 0 then k n s else Exit n s)" by (simp add: seq_def)
lemma cond_Exit: "cond (Exit n s) a b = Exit n s" by (simp add: cond_def)
lemma cond_Done: "cond (Done n s) a b = (if n = 0 then a s else b s)" by (simp add: cond_def)
lemmas sh_simps = seq_Exit seq_Done cond_Exit cond_Done

lemma time_build_eq:
  "time_build w bt ea s =
     (if build_status w (builds s) \<noteq> 0
        then Exit (build_status w (builds s)) (s\<lparr>trace := trace s @ [Echo (''Testing: '' @ bt),
                 Echo (''Command: docker build '' @ ea @ '' -t '' @ IMAGE_NAME @ '' .''), Echo [],
                 Run [''date'', ''+%s''],
                 Run (''docker'' # ''build'' # word_split ea @ [''-t'', IMAGE_NAME, ''.''])], reads := Suc (reads s), builds := Suc (builds s)\<rparr>)
        else Done (low8 (clock w (Suc (reads s)) - clock w (reads s)))
               (s\<lparr>trace := trace s @ [Echo (''Testing: '' @ bt),
                 Echo (''Command: docker build '' @ ea @ '' -t '' @ IMAGE_NAME @ '' .''), Echo [],
                 Run [''date'', ''+%s''],
                 Run (''docker'' # ''build'' # word_split ea @ [''-t'', IMAGE_NAME, ''.'']),
                 Run [''date'', ''+%s''], Completed bt (clock w (Suc (reads s)) - clock w (reads s)), Echo []],
                  reads := Suc (Suc (reads s)), builds := Suc (builds s)\<rparr>))"
  by (simp add: time_build_def emit_def echo_def date_s_def run_build_def return_def Let_def sh_simps)

lemma in64_0: "in64 0"
  by (simp add: in64_def)

lemma wrap64_id: "in64 n \<Longrightarrow> wrap64 n = n"
  by (simp add: wrap64_def in64_def)

lemma sdiv_abs_le:
  fixes a b :: int
  assumes "0 < b"
  shows "\<bar>a sdiv b\<bar> \<le> \<bar>a\<bar>"
proof -
  have "\<bar>a\<bar> div b \<le> \<bar>a\<bar> div 1"
    using assms by (intro zdiv_mono2) simp_all
  moreover have "\<bar>a sdiv b\<bar> = \<bar>a\<bar> div b"
    using assms by (cases "a = 0") (simp_all add: signed_divide_int_def abs_mult abs_sgn_eq pos_imp_zdiv_nonneg_iff)
  ultimately show ?thesis by simp
qed

lemma status_ratio:
  assumes "0 < c" "c \<le> 255" "0 \<le> k" "k \<le> 255"
  shows "wrap64 (wrap64 (wrap64 (wrap64 c - wrap64 k) * 100) sdiv wrap64 c) = ((c - k) * 100) sdiv c"
proof -
  have c: "wrap64 c = c" and k: "wrap64 k = k"
    using assms by (simp_all add: wrap64_id in64_def)
  have d: "wrap64 (c - k) = c - k"
    using assms by (simp add: wrap64_id in64_def)
  have b: "- 25500 \<le> (c - k) * 100 \<and> (c - k) * 100 \<le> 25500"
    using assms by simp
  then have m: "wrap64 ((c - k) * 100) = (c - k) * 100"
    by (intro wrap64_id) (simp add: in64_def)
  have "\<bar>((c - k) * 100) sdiv c\<bar> \<le> \<bar>(c - k) * 100\<bar>"
    by (rule sdiv_abs_le) (rule assms(1))
  with b have "- 25500 \<le> ((c - k) * 100) sdiv c \<and> ((c - k) * 100) sdiv c \<le> 25500"
    by linarith
  then have "wrap64 (((c - k) * 100) sdiv c) = ((c - k) * 100) sdiv c"
    by (intro wrap64_id) (simp add: in64_def)
  with c k d m show ?thesis by simp
qed

lemma results_summary_eq:
  "results_summary c k sc dc bk s =
     Done 0 (s\<lparr>trace := trace s @
        [Echo ''RESULTS SUMMARY'', Echo ''=================================================='',
         Echo ''Build Type                  Time (s)'', Echo ''------------------------------------------'',
         Row ''Clean build'' c, Row ''Full cache'' k, Row ''Source change'' sc, Row ''Deps change'' dc] @
        (if in64 bk \<and> bk > 0 then [Row ''BuildKit'' bk] else []) @
        (if in64 c \<and> c > 0
         then [Echo [], Efficiency (wrap64 (wrap64 (wrap64 (wrap64 c - wrap64 k) * 100) sdiv wrap64 c))]
         else []) @
        [Echo [], Echo ''Cache testing complete!'', Echo ''Tips:'',
         Echo ''  - Full cache builds should be significantly faster'',
         Echo ''  - Source changes should only rebuild final stages'',
         Echo ''  - Dependency changes should rebuild from deps layer'',
         Echo ''  - Use 'docker system df' to see cache usage'']\<rparr>)"
  by (simp add: results_summary_def cache_efficiency_def test_gt_def in64_0 echo_def emit_def sh_simps
        Let_def)


lemma seq_eq_Done: "seq r k = Done n s' \<longleftrightarrow> (\<exists>s. r = Done 0 s \<and> k 0 s = Done n s')"
  by (cases r) (auto simp: seq_def)

lemma rows_append: "rows (xs @ ys) = rows xs @ rows ys"
  by (induction xs rule: rows.induct) simp_all

lemma efficiencies_append: "efficiencies (xs @ ys) = efficiencies xs @ efficiencies ys"
  by (induction xs rule: efficiencies.induct) simp_all

lemma init_simps:
  "trace (init fs) = []" "files (init fs) = fs" "reads (init fs) = 0" "builds (init fs) = 0"
  by (simp_all add: init_def)

lemma completed_iff: "completed r \<longleftrightarrow> (\<exists>n s. r = Done n s)"
  by (cases r) simp_all

lemma tests_pass_simps:
  "tests_pass 4 w \<longleftrightarrow>
     build_status w 0 = 0 \<and> low8 (clock w (Suc 0) - clock w 0) = 0 \<and>
     build_status w (Suc 0) = 0 \<and> low8 (clock w (Suc (Suc (Suc 0))) - clock w (Suc (Suc 0))) = 0 \<and>
     build_status w (Suc (Suc 0)) = 0 \<and>
     low8 (clock w (Suc (Suc (Suc (Suc (Suc 0))))) - clock w (Suc (Suc (Suc (Suc 0))))) = 0 \<and>
     build_status w (Suc (Suc (Suc 0))) = 0 \<and>
     low8 (clock w (Suc (Suc (Suc (Suc (Suc (Suc (Suc 0))))))) - clock w (Suc (Suc (Suc (Suc (Suc (Suc 0))))))) = 0"
  "tests_pass 5 w \<longleftrightarrow>
     tests_pass 4 w \<and> build_status w (Suc (Suc (Suc (Suc 0)))) = 0 \<and>
     low8 (clock w (Suc (Suc (Suc (Suc (Suc (Suc (Suc (Suc (Suc 0))))))))) -
           clock w (Suc (Suc (Suc (Suc (Suc (Suc (Suc (Suc 0))))))))) = 0"
  by (auto simp: eval_nat_numeral)

subsection \<open>Runs in which every command has status 0\<close>

text \<open>
  Under \<open>passes\<close> the script runs to its end, and what it has printed and done to the
  files can be read off. The durations that \<^verbatim>\<open>time_build\<close> prints are the real differences
  of the clock readings; the rows of the summary are the statuses.
\<close>

lemmas stage_defs = script_def test1_def test2_def test3_def test4_def test5_def results_summary_eq
  time_build_eq emit_def echo_def append_line_def cp_def mv_def buildx_version_def init_def Let_def sh_simps

lemma script_passes_aux:
  assumes "passes w fs"
  shows "case script w (init fs) of
      Exit n s \<Rightarrow> False
    | Done n s \<Rightarrow>
        n = 0 \<and>
        durations (trace s) =
          [(''Clean build'', clock w 1 - clock w 0), (''Cached build'', clock w 3 - clock w 2),
           (''Source code change'', clock w 5 - clock w 4), (''Dependency change'', clock w 7 - clock w 6)] @
          (if buildx w then [(''BuildKit build'', clock w 9 - clock w 8)] else []) \<and>
        rows (trace s) =
          [(''Clean build'', 0), (''Full cache'', 0), (''Source change'', 0), (''Deps change'', 0)] \<and>
        efficiencies (trace s) = [] \<and>
        files s = (fs(''src/routes.ts'' \<mapsto> (case fs ''src/routes.ts'' of None \<Rightarrow> [] | Some c \<Rightarrow> c) @
                      ''// Cache test modification at '' @ date_text w @ [CHR 0x0A]))
                  (''package.json.backup'' := None)"
proof (cases "buildx w")
  case True
  with assms show ?thesis
    by (auto simp add: passes_def tests_pass_simps stage_defs eval_nat_numeral fun_eq_iff)
next
  case False
  with assms show ?thesis
    by (auto simp add: passes_def tests_pass_simps stage_defs eval_nat_numeral fun_eq_iff)
qed


lemma script_passes:
  assumes "passes w fs"
  shows "script w (init fs) = Done 0 (final (script w (init fs)))"
    and "durations (trace (final (script w (init fs)))) =
          [(''Clean build'', clock w 1 - clock w 0), (''Cached build'', clock w 3 - clock w 2),
           (''Source code change'', clock w 5 - clock w 4), (''Dependency change'', clock w 7 - clock w 6)] @
          (if buildx w then [(''BuildKit build'', clock w 9 - clock w 8)] else [])"
    and "rows (trace (final (script w (init fs)))) =
          [(''Clean build'', 0), (''Full cache'', 0), (''Source change'', 0), (''Deps change'', 0)]"
    and "efficiencies (trace (final (script w (init fs)))) = []"
    and "files (final (script w (init fs))) =
           (fs(''src/routes.ts'' \<mapsto> (case fs ''src/routes.ts'' of None \<Rightarrow> [] | Some c \<Rightarrow> c) @
                      ''// Cache test modification at '' @ date_text w @ [CHR 0x0A]))
                  (''package.json.backup'' := None)"
  using script_passes_aux[OF assms]
  by (cases "script w (init fs)"; simp)+

subsection \<open>What a stage that ends with status 0 tells\<close>

text \<open>
  The converse: a run that gets to its end satisfies \<open>passes\<close>. Each stage that ended with
  status 0 gives the status of its build and of \<^verbatim>\<open>time_build\<close>, and how far the counters of
  clock readings and builds have moved.
\<close>

lemma echo_Done:
  "echo t s = Done n s' \<Longrightarrow> reads s' = reads s \<and> builds s' = builds s \<and> files s' = files s"
  by (auto simp: echo_def emit_def)

lemma time_build_Done0:
  "time_build w bt ea s = Done 0 s' \<Longrightarrow>
     build_status w (builds s) = 0 \<and> low8 (clock w (Suc (reads s)) - clock w (reads s)) = 0 \<and>
     reads s' = Suc (Suc (reads s)) \<and> builds s' = Suc (builds s) \<and> files s' = files s"
  by (auto simp: time_build_eq split: if_splits)

lemma test1_Done0:
  "test1 w s = Done 0 s' \<Longrightarrow>
     build_status w (builds s) = 0 \<and> low8 (clock w (Suc (reads s)) - clock w (reads s)) = 0 \<and>
     reads s' = Suc (Suc (reads s)) \<and> builds s' = Suc (builds s) \<and> files s' = files s"
  by (auto simp: test1_def seq_eq_Done dest!: echo_Done time_build_Done0)

lemma test2_Done0:
  "test2 w s = Done 0 s' \<Longrightarrow>
     build_status w (builds s) = 0 \<and> low8 (clock w (Suc (reads s)) - clock w (reads s)) = 0 \<and>
     reads s' = Suc (Suc (reads s)) \<and> builds s' = Suc (builds s) \<and> files s' = files s"
  by (auto simp: test2_def seq_eq_Done dest!: echo_Done time_build_Done0)

lemma append_line_Done:
  "append_line t p s = Done n s' \<Longrightarrow>
     reads s' = reads s \<and> builds s' = builds s \<and> (\<forall>q. q \<noteq> p \<longrightarrow> files s' q = files s q)"
  by (auto simp: append_line_def)

lemma test3_Done0:
  "test3 w s = Done 0 s' \<Longrightarrow>
     build_status w (builds s) = 0 \<and> low8 (clock w (Suc (reads s)) - clock w (reads s)) = 0 \<and>
     reads s' = Suc (Suc (reads s)) \<and> builds s' = Suc (builds s) \<and>
     files s' ''package.json'' = files s ''package.json''"
  by (auto simp: test3_def seq_eq_Done dest!: echo_Done time_build_Done0 append_line_Done)

lemma cp_Done0:
  "cp a b s = Done 0 s' \<Longrightarrow> reads s' = reads s \<and> builds s' = builds s \<and> files s a \<noteq> None"
  by (auto simp: cp_def Let_def split: option.splits)

lemma mv_Done0:
  "mv a b s = Done 0 s' \<Longrightarrow> reads s' = reads s \<and> builds s' = builds s"
  by (auto simp: mv_def Let_def split: option.splits)

lemma test4_Done0:
  "test4 w s = Done 0 s' \<Longrightarrow>
     build_status w (builds s) = 0 \<and> low8 (clock w (Suc (reads s)) - clock w (reads s)) = 0 \<and>
     reads s' = Suc (Suc (reads s)) \<and> builds s' = Suc (builds s) \<and>
     files s ''package.json'' \<noteq> None"
  by (auto simp: test4_def seq_eq_Done dest!: echo_Done time_build_Done0 append_line_Done cp_Done0)

lemma test5_Done:
  "test5 w s k = Done n s' \<Longrightarrow> buildx w \<Longrightarrow>
     build_status w (builds s) = 0 \<and> low8 (clock w (Suc (reads s)) - clock w (reads s)) = 0"
  by (auto simp: test5_def buildx_version_def cond_Done seq_eq_Done echo_def emit_def
           dest!: time_build_Done0)

lemma script_Done:
  assumes "script w (init fs) = Done n s"
  shows "passes w fs"
proof -
  from assms obtain sa sb s1 s2 s3 s4 s5 where
    a: "echo ''Docker Build Cache Testing Script'' (init fs) = Done 0 sa"
    and b: "echo ''=================================================='' sa = Done 0 sb"
    and t1: "test1 w sb = Done 0 s1"
    and t2: "test2 w s1 = Done 0 s2"
    and t3: "test3 w s2 = Done 0 s3"
    and t4: "test4 w s3 = Done 0 s4"
    and m: "mv ''package.json.backup'' ''package.json'' s4 = Done 0 s5"
    and t5: "test5 w s5 (\<lambda>bk s. results_summary 0 0 0 0 bk s) = Done n s"
    by (auto simp: script_def seq_eq_Done)
  have sb: "reads sb = 0 \<and> builds sb = 0 \<and> files sb = fs"
    using echo_Done[OF a] echo_Done[OF b] by (simp add: init_def)
  note f1 = test1_Done0[OF t1] and f2 = test2_Done0[OF t2] and f3 = test3_Done0[OF t3]
    and f4 = test4_Done0[OF t4] and f5 = mv_Done0[OF m]
  have p4: "tests_pass 4 w"
    using sb f1 f2 f3 f4 by (simp add: tests_pass_simps)
  have pk: "fs ''package.json'' \<noteq> None"
    using sb f1 f2 f3 f4 by simp
  have p5: "tests_pass 5 w" if "buildx w"
    using test5_Done[OF t5 that] p4 sb f1 f2 f3 f4 f5 by (simp add: tests_pass_simps)
  show ?thesis
    using p4 pk p5 by (simp add: passes_def)
qed

lemma completed_passes: "completed (script w (init fs)) \<longleftrightarrow> passes w fs"
proof
  assume "completed (script w (init fs))"
  then show "passes w fs"
    by (auto simp: completed_iff dest: script_Done)
next
  assume "passes w fs"
  from script_passes(1)[OF this] show "completed (script w (init fs))"
    by (simp add: completed_iff) blast
qed


subsection \<open>Runs that stop early\<close>

lemma nonzero_duration_aborts:
  assumes "build_status w 0 = 0" and "low8 (clock w 1 - clock w 0) \<noteq> 0"
  shows "script w (init fs) = Exit (low8 (clock w 1 - clock w 0)) (final (script w (init fs)))"
    and "builds (final (script w (init fs))) = 1"
    and "rows (trace (final (script w (init fs)))) = []"
    and "durations (trace (final (script w (init fs)))) = [(''Clean build'', clock w 1 - clock w 0)]"
    and "actions (script w (init fs)) =
           [Run [''docker'', ''build'', ''--no-cache'', ''-t'', ''test-build-cache'', ''.'']]"
proof -
  have "case script w (init fs) of
      Done n s \<Rightarrow> False
    | Exit n s \<Rightarrow>
        n = low8 (clock w 1 - clock w 0) \<and> builds s = 1 \<and> rows (trace s) = [] \<and>
        durations (trace s) = [(''Clean build'', clock w 1 - clock w 0)] \<and>
        filter acting (trace s) =
          [Run [''docker'', ''build'', ''--no-cache'', ''-t'', ''test-build-cache'', ''.'']]"
    using assms
    by (simp add: script_def test1_def time_build_eq echo_def emit_def init_def sh_simps acting_def
          word_split_def is_ifs_def IMAGE_NAME_def)
  then show "script w (init fs) = Exit (low8 (clock w 1 - clock w 0)) (final (script w (init fs)))"
    and "builds (final (script w (init fs))) = 1"
    and "rows (trace (final (script w (init fs)))) = []"
    and "durations (trace (final (script w (init fs)))) = [(''Clean build'', clock w 1 - clock w 0)]"
    and "actions (script w (init fs)) =
           [Run [''docker'', ''build'', ''--no-cache'', ''-t'', ''test-build-cache'', ''.'']]"
    by (cases "script w (init fs)"; simp add: actions_def)+
qed

lemma failing_deps_build_aux:
  assumes "tests_pass 3 w" and "fs ''package.json'' = Some c" and "build_status w 3 \<noteq> 0"
  shows "case script w (init fs) of
      Done n s \<Rightarrow> False
    | Exit n s \<Rightarrow>
        n = build_status w 3 \<and>
        files s ''package.json'' = Some (c @ ''  \"comment\": \"cache test modification\",'' @ [CHR 0x0A]) \<and>
        files s ''package.json.backup'' = Some c \<and>
        Run [''mv'', ''package.json.backup'', ''package.json''] \<notin> set (trace s)"
  using assms by (simp add: stage_defs eval_nat_numeral)

lemma instant_world_simps:
  "clock instant_world n = 1700000000"
  "build_status instant_world n = 0"
  "buildx instant_world = False"
  "date_text instant_world = ''Tue Nov 14 22:13:20 UTC 2023''"
  by (simp_all add: instant_world_def)

lemma slow_clean_world_simps:
  "clock slow_clean_world n = (if n = 0 then 1700000000 else 1700000256)"
  "build_status slow_clean_world n = 0"
  "buildx slow_clean_world = False"
  by (simp_all add: slow_clean_world_def instant_world_def)

lemma failing_deps_world_simps:
  "clock failing_deps_world n = 1700000000"
  "build_status failing_deps_world n = (if n = 3 then 1 else 0)"
  "buildx failing_deps_world = False"
  by (simp_all add: failing_deps_world_def instant_world_def)

lemma repo_files_simps:
  "repo_files ''package.json'' = Some ''{ }''"
  "repo_files ''src/routes.ts'' = Some ''export {}''"
  "repo_files ''package.json.backup'' = None"
  by (simp_all add: repo_files_def)

lemma passes_instant_world: "passes instant_world repo_files"
  by (simp add: passes_def tests_pass_simps instant_world_simps repo_files_simps low8_def)

lemma passes_slow_clean_world: "passes slow_clean_world repo_files"
  by (simp add: passes_def tests_pass_simps slow_clean_world_simps repo_files_simps low8_def)

subsection \<open>The order of the actions\<close>

text \<open>
  \<open>steps\<close> composes along the sequencing of commands, so that the actions of the script
  are those of its stages, one list after the other, whatever the world does.
\<close>

lemma actions_simps [simp]:
  "actions (Exit n s) = filter acting (trace s)"
  "actions (Done n s) = filter acting (trace s)"
  by (simp_all add: actions_def)

lemma stepsI: "actions r = A @ L \<Longrightarrow> steps A L r"
proof -
  assume a: "actions r = A @ L"
  have "actions r = A @ take (length L) L" using a by simp
  then have "\<exists>n. actions r = A @ take n L" by (rule exI)
  with a show ?thesis by (simp add: steps_def)
qed

lemma steps_seq:
  assumes r: "steps A L1 r"
    and k: "\<And>s. filter acting (trace s) = A @ L1 \<Longrightarrow> steps (A @ L1) L2 (k 0 s)"
  shows "steps A (L1 @ L2) (seq r k)"
proof (cases r)
  case (Exit n s)
  from r obtain m where m: "actions r = A @ take m L1"
    unfolding steps_def by blast
  have "take (min m (length L1)) (L1 @ L2) = take m L1"
    by (simp add: min_def)
  with m have "actions r = A @ take (min m (length L1)) (L1 @ L2)"
    by simp
  then have "\<exists>n. actions r = A @ take n (L1 @ L2)" by (rule exI)
  with Exit show ?thesis
    by (simp add: steps_def seq_Exit)
next
  case (Done n s)
  with r have a: "filter acting (trace s) = A @ L1"
    by (simp add: steps_def)
  show ?thesis
  proof (cases "n = 0")
    case True
    from k[OF a] obtain m where m: "actions (k 0 s) = (A @ L1) @ take m L2"
      and c: "completed (k 0 s) \<longrightarrow> actions (k 0 s) = (A @ L1) @ L2"
      unfolding steps_def by blast
    have "actions (k 0 s) = A @ take (length L1 + m) (L1 @ L2)"
      using m by simp
    then have "\<exists>n. actions (k 0 s) = A @ take n (L1 @ L2)" by (rule exI)
    with c True Done show ?thesis
      by (simp add: steps_def seq_Done)
  next
    case False
    have "filter acting (trace s) = A @ take (length L1) (L1 @ L2)"
      using a by simp
    then have "\<exists>n. filter acting (trace s) = A @ take n (L1 @ L2)" by (rule exI)
    with False Done show ?thesis
      by (simp add: steps_def seq_Done)
  qed
qed

lemma steps_shift:
  assumes "steps (A @ [e]) L r"
  shows "steps A (e # L) r"
proof -
  from assms obtain m where m: "actions r = (A @ [e]) @ take m L"
    and c: "completed r \<longrightarrow> actions r = (A @ [e]) @ L"
    unfolding steps_def by blast
  have "actions r = A @ take (Suc m) (e # L)"
    using m by simp
  then have "\<exists>n. actions r = A @ take n (e # L)" by (rule exI)
  with c show ?thesis
    by (simp add: steps_def)
qed

lemma steps_emit: "\<not> acting e \<Longrightarrow> filter acting (trace s) = A \<Longrightarrow> steps A [] (emit e s)"
  by (rule stepsI) (simp add: emit_def)

lemma steps_echo: "filter acting (trace s) = A \<Longrightarrow> steps A [] (echo t s)"
  unfolding echo_def by (rule steps_emit) (simp_all add: acting_def)

lemma steps_time_build:
  "filter acting (trace s) = A \<Longrightarrow>
   steps A [Run (''docker'' # ''build'' # word_split ea @ [''-t'', IMAGE_NAME, ''.''])] (time_build w bt ea s)"
  by (rule stepsI) (simp add: time_build_eq acting_def)

lemma steps_append_line: "filter acting (trace s) = A \<Longrightarrow> steps A [Append t p] (append_line t p s)"
  by (rule stepsI) (simp add: append_line_def acting_def)

lemma steps_cp: "filter acting (trace s) = A \<Longrightarrow> steps A [Run [''cp'', a, b]] (cp a b s)"
  by (rule stepsI) (simp add: cp_def acting_def Let_def split: option.split)

lemma steps_mv: "filter acting (trace s) = A \<Longrightarrow> steps A [Run [''mv'', a, b]] (mv a b s)"
  by (rule stepsI) (simp add: mv_def acting_def Let_def split: option.split)

lemma steps_results_summary: "filter acting (trace s) = A \<Longrightarrow> steps A [] (results_summary c k sc dc bk s)"
  by (rule stepsI) (simp add: results_summary_eq acting_def)

lemma steps_test1:
  "filter acting (trace s) = A \<Longrightarrow>
   steps A [Run [''docker'', ''build'', ''--no-cache'', ''-t'', ''test-build-cache'', ''.'']] (test1 w s)"
proof -
  assume a: "filter acting (trace s) = A"
  have "steps A ([] @ [Run (''docker'' # ''build'' # word_split ''--no-cache'' @ [''-t'', IMAGE_NAME, ''.''])]) (test1 w s)"
    unfolding test1_def using a by (intro steps_seq steps_echo steps_time_build) simp_all
  then show ?thesis
    by (simp add: word_split_def is_ifs_def IMAGE_NAME_def)
qed


lemma steps_test2:
  "filter acting (trace s) = A \<Longrightarrow>
   steps A [Run [''docker'', ''build'', ''-t'', ''test-build-cache'', ''.'']] (test2 w s)"
proof -
  assume a: "filter acting (trace s) = A"
  have "steps A ([] @ [Run (''docker'' # ''build'' # word_split [] @ [''-t'', IMAGE_NAME, ''.''])]) (test2 w s)"
    unfolding test2_def using a by (intro steps_seq steps_echo steps_time_build) simp_all
  then show ?thesis
    by (simp add: word_split_def IMAGE_NAME_def)
qed

lemma steps_test3:
  "filter acting (trace s) = A \<Longrightarrow>
   steps A [Append (''// Cache test modification at '' @ date_text w) ''src/routes.ts'',
            Run [''docker'', ''build'', ''-t'', ''test-build-cache'', ''.'']] (test3 w s)"
proof -
  assume a: "filter acting (trace s) = A"
  have "steps A ([] @ [Append (''// Cache test modification at '' @ date_text w) ''src/routes.ts''] @
            [Run (''docker'' # ''build'' # word_split [] @ [''-t'', IMAGE_NAME, ''.''])]) (test3 w s)"
    unfolding test3_def using a
    by (intro steps_seq steps_echo steps_time_build steps_append_line) (simp_all add: acting_def)
  then show ?thesis
    by (simp add: word_split_def IMAGE_NAME_def)
qed

lemma steps_test4:
  "filter acting (trace s) = A \<Longrightarrow>
   steps A [Run [''cp'', ''package.json'', ''package.json.backup''],
            Append ''  \"comment\": \"cache test modification\",'' ''package.json'',
            Run [''docker'', ''build'', ''-t'', ''test-build-cache'', ''.'']] (test4 w s)"
proof -
  assume a: "filter acting (trace s) = A"
  have "steps A ([] @ [Run [''cp'', ''package.json'', ''package.json.backup'']] @
            [Append ''  \"comment\": \"cache test modification\",'' ''package.json''] @
            [Run (''docker'' # ''build'' # word_split [] @ [''-t'', IMAGE_NAME, ''.''])]) (test4 w s)"
    unfolding test4_def using a
    by (intro steps_seq steps_echo steps_time_build steps_append_line steps_cp) simp_all
  then show ?thesis
    by (simp add: word_split_def IMAGE_NAME_def)
qed

lemma steps_test5:
  assumes a: "filter acting (trace s) = A"
  shows "steps A (Run [''docker'', ''buildx'', ''version''] #
            (if buildx w then [Run [''docker'', ''build'', ''--builder=buildx'', ''-t'', ''test-build-cache'', ''.'']] else []))
          (test5 w s (\<lambda>bk s. results_summary c k sc dc bk s))"
proof -
  let ?s = "s\<lparr>trace := trace s @ [Run [''docker'', ''buildx'', ''version'']]\<rparr>"
  have p: "filter acting (trace ?s) = A @ [Run [''docker'', ''buildx'', ''version'']]"
    using a by (simp add: acting_def)
  show ?thesis
  proof (cases "buildx w")
    case True
    have "steps (A @ [Run [''docker'', ''buildx'', ''version'']])
            ([] @ [Run (''docker'' # ''build'' # word_split ''--builder=buildx'' @ [''-t'', IMAGE_NAME, ''.''])] @ [])
            (seq (echo ''Test 5: BuildKit with cache mount'' ?s) (\<lambda>_ s.
             seq (time_build w ''BuildKit build'' ''--builder=buildx'' s) (\<lambda>buildkit_time s.
             results_summary c k sc dc (int buildkit_time) s)))"
      using p by (intro steps_seq steps_echo steps_time_build steps_results_summary) simp_all
    then have "steps (A @ [Run [''docker'', ''buildx'', ''version'']])
            [Run (''docker'' # ''build'' # word_split ''--builder=buildx'' @ [''-t'', IMAGE_NAME, ''.''])]
            (seq (echo ''Test 5: BuildKit with cache mount'' ?s) (\<lambda>_ s.
             seq (time_build w ''BuildKit build'' ''--builder=buildx'' s) (\<lambda>buildkit_time s.
             results_summary c k sc dc (int buildkit_time) s)))"
      by simp
    then have "steps A (Run [''docker'', ''buildx'', ''version''] #
            [Run (''docker'' # ''build'' # word_split ''--builder=buildx'' @ [''-t'', IMAGE_NAME, ''.''])])
            (seq (echo ''Test 5: BuildKit with cache mount'' ?s) (\<lambda>_ s.
             seq (time_build w ''BuildKit build'' ''--builder=buildx'' s) (\<lambda>buildkit_time s.
             results_summary c k sc dc (int buildkit_time) s)))"
      by (rule steps_shift)
    then show ?thesis
      using True
      by (simp add: test5_def buildx_version_def cond_Done word_split_def is_ifs_def IMAGE_NAME_def)
  next
    case False
    have "steps (A @ [Run [''docker'', ''buildx'', ''version'']]) ([] @ [])
            (seq (echo ''BuildKit not available, skipping test 5'' ?s) (\<lambda>_ s.
             results_summary c k sc dc 0 s))"
      using p by (intro steps_seq steps_echo steps_results_summary) simp_all
    then have "steps (A @ [Run [''docker'', ''buildx'', ''version'']]) []
            (seq (echo ''BuildKit not available, skipping test 5'' ?s) (\<lambda>_ s.
             results_summary c k sc dc 0 s))"
      by simp
    then have "steps A [Run [''docker'', ''buildx'', ''version'']]
            (seq (echo ''BuildKit not available, skipping test 5'' ?s) (\<lambda>_ s.
             results_summary c k sc dc 0 s))"
      by (rule steps_shift)
    then show ?thesis
      using False
      by (simp add: test5_def buildx_version_def cond_Done)
  qed
qed

lemma script_steps:
  "steps []
     ([Run [''docker'', ''build'', ''--no-cache'', ''-t'', ''test-build-cache'', ''.''],
       Run [''docker'', ''build'', ''-t'', ''test-build-cache'', ''.''],
       Append (''// Cache test modification at '' @ date_text w) ''src/routes.ts'',
       Run [''docker'', ''build'', ''-t'', ''test-build-cache'', ''.''],
       Run [''cp'', ''package.json'', ''package.json.backup''],
       Append ''  \"comment\": \"cache test modification\",'' ''package.json'',
       Run [''docker'', ''build'', ''-t'', ''test-build-cache'', ''.''],
       Run [''mv'', ''package.json.backup'', ''package.json''],
       Run [''docker'', ''buildx'', ''version'']] @
      (if buildx w then [Run [''docker'', ''build'', ''--builder=buildx'', ''-t'', ''test-build-cache'', ''.'']] else []))
     (script w (init fs))"
proof -
  have i: "filter acting (trace (init fs)) = []"
    by (simp add: init_def)
  have "steps []
     ([] @ [] @ [Run [''docker'', ''build'', ''--no-cache'', ''-t'', ''test-build-cache'', ''.'']] @
       [Run [''docker'', ''build'', ''-t'', ''test-build-cache'', ''.'']] @
       [Append (''// Cache test modification at '' @ date_text w) ''src/routes.ts'',
        Run [''docker'', ''build'', ''-t'', ''test-build-cache'', ''.'']] @
       [Run [''cp'', ''package.json'', ''package.json.backup''],
        Append ''  \"comment\": \"cache test modification\",'' ''package.json'',
        Run [''docker'', ''build'', ''-t'', ''test-build-cache'', ''.'']] @
       [Run [''mv'', ''package.json.backup'', ''package.json'']] @
       (Run [''docker'', ''buildx'', ''version''] #
         (if buildx w then [Run [''docker'', ''build'', ''--builder=buildx'', ''-t'', ''test-build-cache'', ''.'']] else [])))
     (script w (init fs))"
    unfolding script_def using i
    by (intro steps_seq steps_echo steps_test1 steps_test2 steps_test3 steps_test4 steps_mv steps_test5)
       simp_all
  then show ?thesis by simp
qed


section \<open>The claims about the measurement script\<close>

text \<open>
  Two lemmas for the claims below. A run gets to its end only when every timed build
  returned status 0, and then every row of the summary shows 0; and a clean build whose
  duration is not a multiple of 256 seconds ends the run right after the first test.
\<close>

lemma completed_run_reports_zero:
  assumes "completed (script w (init fs))"
  shows "rows (trace (final (script w (init fs)))) =
           [(''Clean build'', 0), (''Full cache'', 0), (''Source change'', 0), (''Deps change'', 0)]"
    and "efficiencies (trace (final (script w (init fs)))) = []"
  using assms script_passes(3,4)[of w fs] by (simp_all add: completed_passes)

lemma five_second_build_aborts:
  "script five_second_world (init repo_files) =
     Exit 5 (final (script five_second_world (init repo_files))) \<and>
   builds (final (script five_second_world (init repo_files))) = 1 \<and>
   rows (trace (final (script five_second_world (init repo_files)))) = []"
proof -
  have b: "build_status five_second_world 0 = 0"
    and l: "low8 (clock five_second_world 1 - clock five_second_world 0) = 5"
    by (simp_all add: five_second_world_def instant_world_def low8_def)
  from l have "low8 (clock five_second_world 1 - clock five_second_world 0) \<noteq> 0"
    by simp
  from nonzero_duration_aborts[OF b this, of repo_files] l show ?thesis
    by simp
qed

text \<open>
  Claim C1. For every run of the measurement script that completes all its timed
  builds, the script prints a cache-efficiency ratio, equal to
  \<open>(clean_time - cached_time) * 100 / clean_time\<close> on the measured durations of the clean
  and the cached build.

  The claim fails where every build ends within the second it started in: the run
  completes, the clean build has taken 0 seconds, and the guard
  \<^verbatim>\<open>[ $clean_time -gt 0 ]\<close> keeps the script from printing a ratio.
\<close>

theorem no_ratio_for_instant_builds:
  "completed (script instant_world (init repo_files)) \<and>
   durations (trace (final (script instant_world (init repo_files)))) =
     [(''Clean build'', 0), (''Cached build'', 0), (''Source code change'', 0), (''Dependency change'', 0)] \<and>
   efficiencies (trace (final (script instant_world (init repo_files)))) = []"
  using script_passes(2,4)[OF passes_instant_world] passes_instant_world
  by (simp add: completed_passes instant_world_simps)

text \<open>
  Claim C1, amended. The results summary always runs to its end; it prints a
  cache-efficiency ratio exactly when the value of \<^verbatim>\<open>clean_time\<close> it is given is greater
  than 0 (and fits into 64 bits, or the test fails), and the ratio is then
  \<open>(clean_time - cached_time) * 100 / clean_time\<close> on the values of \<^verbatim>\<open>clean_time\<close> and
  \<^verbatim>\<open>cached_time\<close> it is given, in the shell's integer arithmetic: signed 64-bit, wrapping,
  with a division that truncates towards zero. For values that are exit statuses, from 0
  to 255, nothing wraps and the ratio is the integer \<open>((clean_time - cached_time) * 100)
  sdiv clean_time\<close>. In every run of the script that completes all its timed builds, the
  values are the times that the summary shows for the clean and for the cached build.
\<close>

theorem cache_efficiency_guarded:
  "completed (results_summary clean_time cached_time source_change_time deps_change_time buildkit_time s) \<and>
   efficiencies (trace (final
     (results_summary clean_time cached_time source_change_time deps_change_time buildkit_time s))) =
   efficiencies (trace s) @
     (if in64 clean_time \<and> 0 < clean_time
      then [wrap64 (wrap64 (wrap64 (wrap64 clean_time - wrap64 cached_time) * 100)
                      sdiv wrap64 clean_time)]
      else []) \<and>
   (0 < clean_time \<and> clean_time \<le> 255 \<and> 0 \<le> cached_time \<and> cached_time \<le> 255 \<longrightarrow>
      efficiencies (trace (final
        (results_summary clean_time cached_time source_change_time deps_change_time buildkit_time s))) =
      efficiencies (trace s) @ [((clean_time - cached_time) * 100) sdiv clean_time]) \<and>
   (completed (script w (init fs)) \<longrightarrow>
      (\<exists>shown_clean shown_cached.
         map_of (rows (trace (final (script w (init fs))))) ''Clean build'' = Some shown_clean \<and>
         map_of (rows (trace (final (script w (init fs))))) ''Full cache'' = Some shown_cached \<and>
         efficiencies (trace (final (script w (init fs)))) =
           (if in64 shown_clean \<and> 0 < shown_clean
            then [wrap64 (wrap64 (wrap64 (wrap64 shown_clean - wrap64 shown_cached) * 100)
                            sdiv wrap64 shown_clean)]
            else [])))"
proof (intro conjI impI)
  show "completed (results_summary clean_time cached_time source_change_time deps_change_time buildkit_time s)"
    by (simp add: results_summary_eq)
  show e: "efficiencies (trace (final
     (results_summary clean_time cached_time source_change_time deps_change_time buildkit_time s))) =
   efficiencies (trace s) @
     (if in64 clean_time \<and> 0 < clean_time
      then [wrap64 (wrap64 (wrap64 (wrap64 clean_time - wrap64 cached_time) * 100)
                      sdiv wrap64 clean_time)]
      else [])"
    by (simp add: results_summary_eq efficiencies_append)
  show "efficiencies (trace (final
        (results_summary clean_time cached_time source_change_time deps_change_time buildkit_time s))) =
      efficiencies (trace s) @ [((clean_time - cached_time) * 100) sdiv clean_time]"
    if r: "0 < clean_time \<and> clean_time \<le> 255 \<and> 0 \<le> cached_time \<and> cached_time \<le> 255"
  proof -
    from r have "in64 clean_time"
      by (simp add: in64_def)
    moreover from r
    have "wrap64 (wrap64 (wrap64 (wrap64 clean_time - wrap64 cached_time) * 100) sdiv wrap64 clean_time) =
          ((clean_time - cached_time) * 100) sdiv clean_time"
      by (intro status_ratio) simp_all
    ultimately show ?thesis
      using e r by simp
  qed
next
  assume "completed (script w (init fs))"
  then have p: "passes w fs"
    by (simp add: completed_passes)
  have "map_of (rows (trace (final (script w (init fs))))) ''Clean build'' = Some 0 \<and>
        map_of (rows (trace (final (script w (init fs))))) ''Full cache'' = Some 0 \<and>
        efficiencies (trace (final (script w (init fs)))) =
          (if in64 (0::int) \<and> 0 < (0::int)
           then [wrap64 (wrap64 (wrap64 (wrap64 0 - wrap64 0) * 100) sdiv wrap64 0)]
           else [])"
    using script_passes(3,4)[OF p] by simp
  then show "\<exists>shown_clean shown_cached.
         map_of (rows (trace (final (script w (init fs))))) ''Clean build'' = Some shown_clean \<and>
         map_of (rows (trace (final (script w (init fs))))) ''Full cache'' = Some shown_cached \<and>
         efficiencies (trace (final (script w (init fs)))) =
           (if in64 shown_clean \<and> 0 < shown_clean
            then [wrap64 (wrap64 (wrap64 (wrap64 shown_clean - wrap64 shown_cached) * 100)
                            sdiv wrap64 shown_clean)]
            else [])"
    by blast
qed

theorem cache_efficiency_guarded_witness:
  "efficiencies (trace (final (results_summary 10 2 3 4 0 (init repo_files)))) = [80] \<and>
   efficiencies (trace (final (results_summary 3 5 0 0 0 (init repo_files)))) = [- 66] \<and>
   efficiencies (trace (final (results_summary 0 0 0 0 0 (init repo_files)))) = [] \<and>
   efficiencies (trace (final (results_summary 100000000000000000 0 0 0 0 (init repo_files)))) = [- 84] \<and>
   efficiencies (trace (final (results_summary 9223372036854775808 0 0 0 0 (init repo_files)))) = [] \<and>
   completed (script instant_world (init repo_files)) \<and>
   (\<exists>shown_clean shown_cached.
      map_of (rows (trace (final (script instant_world (init repo_files))))) ''Clean build'' =
        Some shown_clean \<and>
      map_of (rows (trace (final (script instant_world (init repo_files))))) ''Full cache'' =
        Some shown_cached \<and>
      efficiencies (trace (final (script instant_world (init repo_files)))) =
        (if in64 shown_clean \<and> 0 < shown_clean
         then [wrap64 (wrap64 (wrap64 (wrap64 shown_clean - wrap64 shown_cached) * 100)
                         sdiv wrap64 shown_clean)]
         else []))"
proof -
  have c: "completed (script instant_world (init repo_files))"
    using passes_instant_world by (simp add: completed_passes)
  have a: "efficiencies (trace (final (results_summary 10 2 3 4 0 (init repo_files)))) = [80]"
    using cache_efficiency_guarded[of 10 2 3 4 0 "init repo_files" instant_world repo_files]
    by (simp add: init_simps in64_def wrap64_def signed_divide_int_def)
  have b: "efficiencies (trace (final (results_summary 3 5 0 0 0 (init repo_files)))) = [- 66]"
    using cache_efficiency_guarded[of 3 5 0 0 0 "init repo_files" instant_world repo_files]
    by (simp add: init_simps in64_def wrap64_def signed_divide_int_def)
  have z: "efficiencies (trace (final (results_summary 0 0 0 0 0 (init repo_files)))) = []"
    using cache_efficiency_guarded[of 0 0 0 0 0 "init repo_files" instant_world repo_files]
    by (simp add: init_simps)
  have g: "efficiencies (trace (final (results_summary 100000000000000000 0 0 0 0 (init repo_files)))) = [- 84]"
    using cache_efficiency_guarded[of 100000000000000000 0 0 0 0 "init repo_files" instant_world repo_files]
    by (simp add: init_simps in64_def wrap64_def signed_divide_int_def)
  have h: "efficiencies (trace (final (results_summary 9223372036854775808 0 0 0 0 (init repo_files)))) = []"
    using cache_efficiency_guarded[of 9223372036854775808 0 0 0 0 "init repo_files" instant_world repo_files]
    by (simp add: init_simps in64_def)
  from cache_efficiency_guarded[of 0 0 0 0 0 "init repo_files" instant_world repo_files] c
  have "\<exists>shown_clean shown_cached.
      map_of (rows (trace (final (script instant_world (init repo_files))))) ''Clean build'' =
        Some shown_clean \<and>
      map_of (rows (trace (final (script instant_world (init repo_files))))) ''Full cache'' =
        Some shown_cached \<and>
      efficiencies (trace (final (script instant_world (init repo_files)))) =
        (if in64 shown_clean \<and> 0 < shown_clean
         then [wrap64 (wrap64 (wrap64 (wrap64 shown_clean - wrap64 shown_cached) * 100)
                         sdiv wrap64 shown_clean)]
         else [])"
    by blast
  with c a b z g h show ?thesis
    by blast
qed

text \<open>
  Claim C2. For every build timed by the measurement script, the duration in the
  results summary equals \<open>end_time - start_time\<close>, for any value of that difference.

  The summary shows \<^verbatim>\<open>$?\<close> after \<^verbatim>\<open>time_build\<close>, which is the duration modulo 256, and
  under \<^verbatim>\<open>set -e\<close> the run only gets to the summary when that is 0. With a clean build
  of 256 seconds the message of \<^verbatim>\<open>time_build\<close> says 256 and the summary says 0.
\<close>

theorem summary_shows_status_not_duration:
  "completed (script slow_clean_world (init repo_files)) \<and>
   durations (trace (final (script slow_clean_world (init repo_files)))) =
     [(''Clean build'', 256), (''Cached build'', 0), (''Source code change'', 0), (''Dependency change'', 0)] \<and>
   rows (trace (final (script slow_clean_world (init repo_files)))) =
     [(''Clean build'', 0), (''Full cache'', 0), (''Source change'', 0), (''Deps change'', 0)]"
  using script_passes(2,3)[OF passes_slow_clean_world] passes_slow_clean_world
  by (simp add: completed_passes slow_clean_world_simps)

text \<open>
  The order of the builds and of the changes to the files. In every run the actions are
  an initial part of the list below, in its order, and a run that gets to its end has
  performed all of them, the BuildKit build exactly when \<^verbatim>\<open>docker buildx version\<close> succeeds.
\<close>

lemma build_order:
  fixes w :: world and fs :: "string \<rightharpoonup> string"
  defines "plan \<equiv>
     [Run [''docker'', ''build'', ''--no-cache'', ''-t'', ''test-build-cache'', ''.''],
      Run [''docker'', ''build'', ''-t'', ''test-build-cache'', ''.''],
      Append (''// Cache test modification at '' @ date_text w) ''src/routes.ts'',
      Run [''docker'', ''build'', ''-t'', ''test-build-cache'', ''.''],
      Run [''cp'', ''package.json'', ''package.json.backup''],
      Append ''  \"comment\": \"cache test modification\",'' ''package.json'',
      Run [''docker'', ''build'', ''-t'', ''test-build-cache'', ''.''],
      Run [''mv'', ''package.json.backup'', ''package.json''],
      Run [''docker'', ''buildx'', ''version'']] @
     (if buildx w
      then [Run [''docker'', ''build'', ''--builder=buildx'', ''-t'', ''test-build-cache'', ''.'']]
      else [])"
  shows "(\<exists>n. actions (script w (init fs)) = take n plan) \<and>
         (completed (script w (init fs)) \<longrightarrow> actions (script w (init fs)) = plan)"
  using script_steps[of w fs] unfolding plan_def steps_def by simp

lemma build_order_example:
  "completed (script instant_world (init repo_files)) \<and>
   actions (script instant_world (init repo_files)) =
     [Run [''docker'', ''build'', ''--no-cache'', ''-t'', ''test-build-cache'', ''.''],
      Run [''docker'', ''build'', ''-t'', ''test-build-cache'', ''.''],
      Append ''// Cache test modification at Tue Nov 14 22:13:20 UTC 2023'' ''src/routes.ts'',
      Run [''docker'', ''build'', ''-t'', ''test-build-cache'', ''.''],
      Run [''cp'', ''package.json'', ''package.json.backup''],
      Append ''  \"comment\": \"cache test modification\",'' ''package.json'',
      Run [''docker'', ''build'', ''-t'', ''test-build-cache'', ''.''],
      Run [''mv'', ''package.json.backup'', ''package.json''],
      Run [''docker'', ''buildx'', ''version'']] \<and>
   completed (script buildx_world (init repo_files)) \<and>
   actions (script buildx_world (init repo_files)) =
     [Run [''docker'', ''build'', ''--no-cache'', ''-t'', ''test-build-cache'', ''.''],
      Run [''docker'', ''build'', ''-t'', ''test-build-cache'', ''.''],
      Append ''// Cache test modification at Tue Nov 14 22:13:20 UTC 2023'' ''src/routes.ts'',
      Run [''docker'', ''build'', ''-t'', ''test-build-cache'', ''.''],
      Run [''cp'', ''package.json'', ''package.json.backup''],
      Append ''  \"comment\": \"cache test modification\",'' ''package.json'',
      Run [''docker'', ''build'', ''-t'', ''test-build-cache'', ''.''],
      Run [''mv'', ''package.json.backup'', ''package.json''],
      Run [''docker'', ''buildx'', ''version''],
      Run [''docker'', ''build'', ''--builder=buildx'', ''-t'', ''test-build-cache'', ''.'']]"
proof -
  have b: "passes buildx_world repo_files"
    by (simp add: passes_def tests_pass_simps buildx_world_def instant_world_def repo_files_simps low8_def)
  have c1: "completed (script instant_world (init repo_files))"
    using passes_instant_world by (simp add: completed_passes)
  have c2: "completed (script buildx_world (init repo_files))"
    using b by (simp add: completed_passes)
  show ?thesis
    using build_order[of instant_world repo_files] build_order[of buildx_world repo_files] c1 c2
    by (simp add: instant_world_simps buildx_world_def)
qed

text \<open>
  Claim C7. The measurement script runs its timed builds one after the other in a
  fixed order: the clean build with \<^verbatim>\<open>--no-cache\<close>, the cached rebuild, the rebuild after
  a comment line was appended to \<^verbatim>\<open>src/routes.ts\<close>, the rebuild after a line was appended
  to \<^verbatim>\<open>package.json\<close>, and a BuildKit build only when \<^verbatim>\<open>docker buildx\<close> is available.

  The script does not get that far when a build takes time. With every build succeeding
  and a clean build of five seconds, \<^verbatim>\<open>time_build\<close> returns 5 and \<^verbatim>\<open>set -e\<close> ends the script:
  the clean build is the only action of the run, and the three, or four, builds that
  should follow are never started.
\<close>

theorem five_second_run_stops_after_first_build:
  "build_status five_second_world 0 = 0 \<and> build_status five_second_world 1 = 0 \<and>
   build_status five_second_world 2 = 0 \<and> build_status five_second_world 3 = 0 \<and>
   \<not> completed (script five_second_world (init repo_files)) \<and>
   exit_status (script five_second_world (init repo_files)) = 5 \<and>
   durations (trace (final (script five_second_world (init repo_files)))) = [(''Clean build'', 5)] \<and>
   actions (script five_second_world (init repo_files)) =
     [Run [''docker'', ''build'', ''--no-cache'', ''-t'', ''test-build-cache'', ''.'']]"
proof -
  have b: "build_status five_second_world n = 0" for n
    by (simp add: five_second_world_def instant_world_def)
  have d: "clock five_second_world 1 - clock five_second_world 0 = 5"
    by (simp add: five_second_world_def instant_world_def)
  then have l: "low8 (clock five_second_world 1 - clock five_second_world 0) = 5"
    by (simp add: low8_def)
  then have n: "low8 (clock five_second_world 1 - clock five_second_world 0) \<noteq> 0"
    by simp
  have e: "script five_second_world (init repo_files) =
             Exit 5 (final (script five_second_world (init repo_files)))"
    using nonzero_duration_aborts(1)[OF b n, of repo_files] l by simp
  have "\<not> completed (script five_second_world (init repo_files)) \<and>
        exit_status (script five_second_world (init repo_files)) = 5"
    by (subst e, subst e) simp
  with b d nonzero_duration_aborts(4,5)[OF b n, of repo_files] show ?thesis
    by simp
qed

text \<open>
  Claim C8. After a run that completes, \<^verbatim>\<open>package.json\<close> has its content from before the
  run, and \<^verbatim>\<open>src/routes.ts\<close> has its former content followed by the one comment line. If
  the build of the dependency-change test fails, \<^verbatim>\<open>set -e\<close> ends the script before the
  restore: \<^verbatim>\<open>package.json\<close> keeps the appended line, the backup stays, and \<^verbatim>\<open>mv\<close> has not
  run. That build is reached when the first three timed builds have passed and
  \<^verbatim>\<open>package.json\<close> exists.
\<close>

theorem package_json_restored:
  "(completed (script w (init fs)) \<longrightarrow>
      fs ''package.json'' \<noteq> None \<and>
      files (final (script w (init fs))) ''package.json'' = fs ''package.json'' \<and>
      files (final (script w (init fs))) ''src/routes.ts'' =
        Some ((case fs ''src/routes.ts'' of None \<Rightarrow> [] | Some c \<Rightarrow> c) @
              ''// Cache test modification at '' @ date_text w @ [CHR 0x0A])) \<and>
   (tests_pass 3 w \<and> fs ''package.json'' = Some c \<and> build_status w 3 \<noteq> 0 \<longrightarrow>
      script w (init fs) = Exit (build_status w 3) (final (script w (init fs))) \<and>
      files (final (script w (init fs))) ''package.json'' =
        Some (c @ ''  \"comment\": \"cache test modification\",'' @ [CHR 0x0A]) \<and>
      files (final (script w (init fs))) ''package.json.backup'' = Some c \<and>
      Run [''mv'', ''package.json.backup'', ''package.json''] \<notin> set (trace (final (script w (init fs)))))"
proof (intro conjI impI)
  assume c: "completed (script w (init fs))"
  then have p: "passes w fs"
    by (simp add: completed_passes)
  then show "fs ''package.json'' \<noteq> None"
    by (simp add: passes_def)
  from script_passes(5)[OF p]
  show "files (final (script w (init fs))) ''package.json'' = fs ''package.json''"
    and "files (final (script w (init fs))) ''src/routes.ts'' =
        Some ((case fs ''src/routes.ts'' of None \<Rightarrow> [] | Some c \<Rightarrow> c) @
              ''// Cache test modification at '' @ date_text w @ [CHR 0x0A])"
    by simp_all
next
  assume a: "tests_pass 3 w \<and> fs ''package.json'' = Some c \<and> build_status w 3 \<noteq> 0"
  then have "case script w (init fs) of
      Done n s \<Rightarrow> False
    | Exit n s \<Rightarrow>
        n = build_status w 3 \<and>
        files s ''package.json'' = Some (c @ ''  \"comment\": \"cache test modification\",'' @ [CHR 0x0A]) \<and>
        files s ''package.json.backup'' = Some c \<and>
        Run [''mv'', ''package.json.backup'', ''package.json''] \<notin> set (trace s)"
    by (intro failing_deps_build_aux) simp_all
  then show "script w (init fs) = Exit (build_status w 3) (final (script w (init fs)))"
    and "files (final (script w (init fs))) ''package.json'' =
        Some (c @ ''  \"comment\": \"cache test modification\",'' @ [CHR 0x0A])"
    and "files (final (script w (init fs))) ''package.json.backup'' = Some c"
    and "Run [''mv'', ''package.json.backup'', ''package.json''] \<notin> set (trace (final (script w (init fs))))"
    by (cases "script w (init fs)"; simp)+
qed

theorem package_json_restored_witness:
  "completed (script instant_world (init repo_files)) \<and>
   files (final (script instant_world (init repo_files))) ''package.json'' = Some ''{ }'' \<and>
   files (final (script instant_world (init repo_files))) ''src/routes.ts'' =
     Some (''export {}// Cache test modification at Tue Nov 14 22:13:20 UTC 2023'' @ [CHR 0x0A]) \<and>
   tests_pass 3 failing_deps_world \<and> build_status failing_deps_world 3 \<noteq> 0 \<and>
   script failing_deps_world (init repo_files) =
     Exit 1 (final (script failing_deps_world (init repo_files))) \<and>
   files (final (script failing_deps_world (init repo_files))) ''package.json'' =
     Some (''{ }  \"comment\": \"cache test modification\",'' @ [CHR 0x0A]) \<and>
   files (final (script failing_deps_world (init repo_files))) ''package.json.backup'' = Some ''{ }''"
proof -
  have c: "completed (script instant_world (init repo_files))"
    using passes_instant_world by (simp add: completed_passes)
  have t: "tests_pass 3 failing_deps_world \<and> repo_files ''package.json'' = Some ''{ }'' \<and>
           build_status failing_deps_world 3 \<noteq> 0"
    by (simp add: eval_nat_numeral failing_deps_world_simps repo_files_simps low8_def)
  show ?thesis
    using package_json_restored[of instant_world repo_files "''{ }''"]
      package_json_restored[of failing_deps_world repo_files "''{ }''"] c t
    by (simp add: instant_world_simps repo_files_simps failing_deps_world_simps)
qed

section \<open>Properties of the scenario script\<close>

subsection \<open>The container builds of each scenario function\<close>

lemma final_errexit: "final (errexit r) = final r"
  by (cases r) (simp_all add: errexit_def seq_def)

lemmas scenario_simps = build_invocations_def echo_def emit_def run_build_def buildx_version_def
  seq_Done cond_Done final_errexit is_build_def is_assignment_def IMAGE_NAME_def Let_def

lemma basic_build_invocations:
  "build_invocations (basic_build w s) =
     filter is_build (trace s) @ [Run [''docker'', ''build'', ''-t'', ''test-build-cache'', ''.'']]"
  by (simp add: basic_build_def scenario_simps)

lemma no_cache_build_invocations:
  "build_invocations (no_cache_build w s) =
     filter is_build (trace s) @
     [Run [''docker'', ''build'', ''--no-cache'', ''-t'', ''test-build-cache'', ''.'']]"
  by (simp add: no_cache_build_def scenario_simps)

lemma target_build_invocations:
  "build_invocations (target_build w s) =
     filter is_build (trace s) @
     [Run [''docker'', ''build'', ''--target'', ''deps'', ''-t'', ''test-build-cache-deps'', ''.'']]"
  by (simp add: target_build_def scenario_simps)

lemma buildkit_build_invocations:
  "build_invocations (buildkit_build w s) =
     filter is_build (trace s) @
     (if buildx w
      then [Run [''DOCKER_BUILDKIT=1'', ''docker'', ''build'', ''-t'', ''test-build-cache'', ''.'']]
      else [Run [''docker'', ''build'', ''-t'', ''test-build-cache'', ''.'']])"
  by (simp add: buildkit_build_def scenario_simps)

lemma multi_platform_build_invocations:
  "build_invocations (multi_platform_build w s) =
     filter is_build (trace s) @
     (if buildx w
      then [Run [''docker'', ''buildx'', ''build'', ''--platform'', ''linux/amd64,linux/arm64'',
                 ''-t'', ''test-build-cache'', ''.'']]
      else [])"
  by (simp add: multi_platform_build_def scenario_simps)

lemma inline_cache_build_invocations:
  "build_invocations (inline_cache_build w s) =
     filter is_build (trace s) @
     (if buildx w
      then [Run [''docker'', ''buildx'', ''build'', ''--cache-to'', ''type=inline'',
                 ''--cache-from'', ''test-build-cache'', ''-t'', ''test-build-cache'', ''--load'', ''.'']]
      else [Run [''docker'', ''build'', ''-t'', ''test-build-cache'', ''.'']])"
  by (simp add: inline_cache_build_def scenario_simps)

lemma registry_cache_build_invocations:
  "build_invocations (registry_cache_build w s) =
     filter is_build (trace s) @
     (if buildx w
      then [Run [''docker'', ''buildx'', ''build'',
                 ''--cache-to'', ''type=local,dest=/tmp/docker-cache'',
                 ''--cache-from'', ''type=local,src=/tmp/docker-cache'',
                 ''-t'', ''test-build-cache'', ''--load'', ''.'']]
      else [Run [''docker'', ''build'', ''-t'', ''test-build-cache'', ''.'']])"
  by (simp add: registry_cache_build_def scenario_simps)

lemma clean_up_eq:
  "clean_up w s =
     Done 0 (s\<lparr>trace := trace s @
       [Echo ''Cleaning up'', Echo ''Removing test images...'',
        Run [''docker'', ''rmi'', ''-f'', ''test-build-cache''],
        Run [''docker'', ''rmi'', ''-f'', ''test-build-cache-deps''],
        Echo ''Pruning build cache...'',
        Run [''docker'', ''builder'', ''prune'', ''-f''],
        Echo ''Removing temporary cache...'',
        Run [''rm'', ''-rf'', ''/tmp/docker-cache''],
        Echo ''Cleanup complete'']\<rparr>)"
  by (simp add: clean_up_def echo_def emit_def run_cleanup_def or_true_def seq_Done IMAGE_NAME_def)

lemma clean_up_invocations:
  "build_invocations (clean_up w s) = filter is_build (trace s)"
  by (simp add: clean_up_eq build_invocations_def is_build_def is_assignment_def Let_def)

subsection \<open>What each scenario function prints and runs\<close>

lemma exit_status_errexit: "exit_status (errexit r) = exit_status r"
  by (cases r) (simp_all add: errexit_def seq_def)

lemmas run_simps = echo_def emit_def run_build_def buildx_version_def seq_Done cond_Done
  final_errexit exit_status_errexit IMAGE_NAME_def

lemma basic_build_run:
  "trace (final (basic_build w s)) =
     trace s @ [Echo ''Basic Build'', Run [''docker'', ''build'', ''-t'', ''test-build-cache'', ''.'']]"
  "exit_status (basic_build w s) = build_status w (builds s)"
  by (simp_all add: basic_build_def run_simps)

lemma no_cache_build_run:
  "trace (final (no_cache_build w s)) =
     trace s @ [Echo ''No Cache Build'',
                Run [''docker'', ''build'', ''--no-cache'', ''-t'', ''test-build-cache'', ''.'']]"
  "exit_status (no_cache_build w s) = build_status w (builds s)"
  by (simp_all add: no_cache_build_def run_simps)

lemma target_build_run:
  "trace (final (target_build w s)) =
     trace s @ [Echo ''Target Build (deps stage only)'',
                Run [''docker'', ''build'', ''--target'', ''deps'', ''-t'', ''test-build-cache-deps'', ''.'']]"
  "exit_status (target_build w s) = build_status w (builds s)"
  by (simp_all add: target_build_def run_simps)

lemma buildkit_build_run:
  "trace (final (buildkit_build w s)) =
     trace s @ [Echo ''BuildKit Build'', Run [''docker'', ''buildx'', ''version'']] @
     (if buildx w
      then [Run [''DOCKER_BUILDKIT=1'', ''docker'', ''build'', ''-t'', ''test-build-cache'', ''.'']]
      else [Echo ''BuildKit not available, using standard build'',
            Run [''docker'', ''build'', ''-t'', ''test-build-cache'', ''.'']])"
  "exit_status (buildkit_build w s) = build_status w (builds s)"
  by (simp_all add: buildkit_build_def run_simps)

lemma multi_platform_build_run:
  "trace (final (multi_platform_build w s)) =
     trace s @ [Echo ''Multi-platform Build'', Run [''docker'', ''buildx'', ''version'']] @
     (if buildx w
      then [Run [''docker'', ''buildx'', ''build'', ''--platform'', ''linux/amd64,linux/arm64'',
                 ''-t'', ''test-build-cache'', ''.'']]
      else [Echo ''Buildx not available, skipping multi-platform build''])"
  "exit_status (multi_platform_build w s) = (if buildx w then build_status w (builds s) else 0)"
  by (simp_all add: multi_platform_build_def run_simps)

lemma inline_cache_build_run:
  "trace (final (inline_cache_build w s)) =
     trace s @ [Echo ''Inline Cache Build'', Run [''docker'', ''buildx'', ''version'']] @
     (if buildx w
      then [Run [''docker'', ''buildx'', ''build'', ''--cache-to'', ''type=inline'',
                 ''--cache-from'', ''test-build-cache'', ''-t'', ''test-build-cache'', ''--load'', ''.'']]
      else [Echo ''Buildx not available, using standard build'',
            Run [''docker'', ''build'', ''-t'', ''test-build-cache'', ''.'']])"
  "exit_status (inline_cache_build w s) = build_status w (builds s)"
  by (simp_all add: inline_cache_build_def run_simps)

lemma registry_cache_build_run:
  "trace (final (registry_cache_build w s)) =
     trace s @ [Echo ''Registry Cache Build (simulated)'',
                Echo ''Note: This would typically push/pull from a registry'',
                Run [''docker'', ''buildx'', ''version'']] @
     (if buildx w
      then [Run [''docker'', ''buildx'', ''build'',
                 ''--cache-to'', ''type=local,dest=/tmp/docker-cache'',
                 ''--cache-from'', ''type=local,src=/tmp/docker-cache'',
                 ''-t'', ''test-build-cache'', ''--load'', ''.'']]
      else [Echo ''Buildx not available, using standard build'',
            Run [''docker'', ''build'', ''-t'', ''test-build-cache'', ''.'']])"
  "exit_status (registry_cache_build w s) = build_status w (builds s)"
  by (simp_all add: registry_cache_build_def run_simps)

subsection \<open>The banner and the usage text\<close>

lemma banner_eq:
  "banner s = Done 0 (s\<lparr>trace := trace s @
     [Echo ''Docker Build Scenarios'', Echo ''================================'']\<rparr>)"
  by (simp add: banner_def echo_def emit_def seq_Done)

lemma show_usage_eq:
  "show_usage script_name s = Done 0 (s\<lparr>trace := trace s @
     [Echo ''Available scenarios:'', Echo [],
      Echo ''  basic          - Standard docker build'',
      Echo ''  no-cache       - Build without using cache'',
      Echo ''  target         - Build specific stage only'',
      Echo ''  buildkit       - Use BuildKit features'',
      Echo ''  multi-platform - Multi-platform build'',
      Echo ''  inline-cache   - Build with inline cache export'',
      Echo ''  registry-cache - Use registry for cache'',
      Echo ''  clean          - Clean up images and cache'',
      Echo ''  all            - Run all scenarios'',
      Echo [],
      Echo (''Usage: '' @ script_name @ '' <scenario>'')]\<rparr>)"
  by (simp add: show_usage_def echo_def emit_def seq_Done)

lemma usage_exit:
  assumes "a \<notin> {''basic'', ''no-cache'', ''target'', ''buildkit'', ''multi-platform'',
                 ''inline-cache'', ''registry-cache'', ''clean'', ''all''}"
    and "first_arg args = a"
  shows "scenarios script_name args w s = Exit 1 (s\<lparr>trace := trace s @
     [Echo ''Docker Build Scenarios'', Echo ''================================'',
      Echo ''Available scenarios:'', Echo [],
      Echo ''  basic          - Standard docker build'',
      Echo ''  no-cache       - Build without using cache'',
      Echo ''  target         - Build specific stage only'',
      Echo ''  buildkit       - Use BuildKit features'',
      Echo ''  multi-platform - Multi-platform build'',
      Echo ''  inline-cache   - Build with inline cache export'',
      Echo ''  registry-cache - Use registry for cache'',
      Echo ''  clean          - Clean up images and cache'',
      Echo ''  all            - Run all scenarios'',
      Echo [],
      Echo (''Usage: '' @ script_name @ '' <scenario>'')]\<rparr>)"
  using assms by (simp add: scenarios_def banner_eq show_usage_eq seq_Done Let_def)

section \<open>The claims about the scenario script\<close>

text \<open>
  Claim C3. Every named build-scenario function performs exactly one container-build
  invocation with its flag set, in every environment, also without buildx.

  The claim fails for \<^verbatim>\<open>multi_platform_build\<close> where buildx is not available: the function
  prints that it skips the build and ends with status 0, having built nothing.
\<close>

theorem multi_platform_without_buildx:
  "buildx instant_world = False \<and>
   build_invocations (multi_platform_build instant_world (init repo_files)) = [] \<and>
   completed (multi_platform_build instant_world (init repo_files))"
  by (simp add: multi_platform_build_def scenario_simps instant_world_simps init_def)

text \<open>
  Claim C3, amended. Each of \<^verbatim>\<open>basic_build\<close>, \<^verbatim>\<open>no_cache_build\<close>, \<^verbatim>\<open>target_build\<close>,
  \<^verbatim>\<open>buildkit_build\<close>, \<^verbatim>\<open>inline_cache_build\<close> and \<^verbatim>\<open>registry_cache_build\<close> performs exactly one
  container-build invocation in every environment, the last three with a flag set that
  depends on whether buildx is available; \<^verbatim>\<open>multi_platform_build\<close> performs one when buildx
  is available and none otherwise; \<^verbatim>\<open>clean_up\<close> performs none.
\<close>

theorem scenario_build_invocations:
  "build_invocations (basic_build w s) =
     filter is_build (trace s) @ [Run [''docker'', ''build'', ''-t'', ''test-build-cache'', ''.'']] \<and>
   build_invocations (no_cache_build w s) =
     filter is_build (trace s) @
     [Run [''docker'', ''build'', ''--no-cache'', ''-t'', ''test-build-cache'', ''.'']] \<and>
   build_invocations (target_build w s) =
     filter is_build (trace s) @
     [Run [''docker'', ''build'', ''--target'', ''deps'', ''-t'', ''test-build-cache-deps'', ''.'']] \<and>
   build_invocations (buildkit_build w s) =
     filter is_build (trace s) @
     (if buildx w
      then [Run [''DOCKER_BUILDKIT=1'', ''docker'', ''build'', ''-t'', ''test-build-cache'', ''.'']]
      else [Run [''docker'', ''build'', ''-t'', ''test-build-cache'', ''.'']]) \<and>
   build_invocations (inline_cache_build w s) =
     filter is_build (trace s) @
     (if buildx w
      then [Run [''docker'', ''buildx'', ''build'', ''--cache-to'', ''type=inline'',
                 ''--cache-from'', ''test-build-cache'', ''-t'', ''test-build-cache'', ''--load'', ''.'']]
      else [Run [''docker'', ''build'', ''-t'', ''test-build-cache'', ''.'']]) \<and>
   build_invocations (registry_cache_build w s) =
     filter is_build (trace s) @
     (if buildx w
      then [Run [''docker'', ''buildx'', ''build'',
                 ''--cache-to'', ''type=local,dest=/tmp/docker-cache'',
                 ''--cache-from'', ''type=local,src=/tmp/docker-cache'',
                 ''-t'', ''test-build-cache'', ''--load'', ''.'']]
      else [Run [''docker'', ''build'', ''-t'', ''test-build-cache'', ''.'']]) \<and>
   build_invocations (multi_platform_build w s) =
     filter is_build (trace s) @
     (if buildx w
      then [Run [''docker'', ''buildx'', ''build'', ''--platform'', ''linux/amd64,linux/arm64'',
                 ''-t'', ''test-build-cache'', ''.'']]
      else []) \<and>
   build_invocations (clean_up w s) = filter is_build (trace s)"
  by (simp only: basic_build_invocations no_cache_build_invocations target_build_invocations
        buildkit_build_invocations inline_cache_build_invocations registry_cache_build_invocations
        multi_platform_build_invocations clean_up_invocations simp_thms)

theorem scenario_build_invocations_witness:
  "length (build_invocations (basic_build instant_world (init repo_files))) = 1 \<and>
   length (build_invocations (no_cache_build instant_world (init repo_files))) = 1 \<and>
   length (build_invocations (target_build instant_world (init repo_files))) = 1 \<and>
   build_invocations (buildkit_build instant_world (init repo_files)) =
     [Run [''docker'', ''build'', ''-t'', ''test-build-cache'', ''.'']] \<and>
   build_invocations (buildkit_build buildx_world (init repo_files)) =
     [Run [''DOCKER_BUILDKIT=1'', ''docker'', ''build'', ''-t'', ''test-build-cache'', ''.'']] \<and>
   length (build_invocations (inline_cache_build instant_world (init repo_files))) = 1 \<and>
   length (build_invocations (inline_cache_build buildx_world (init repo_files))) = 1 \<and>
   length (build_invocations (registry_cache_build instant_world (init repo_files))) = 1 \<and>
   length (build_invocations (registry_cache_build buildx_world (init repo_files))) = 1 \<and>
   length (build_invocations (multi_platform_build buildx_world (init repo_files))) = 1 \<and>
   length (build_invocations (multi_platform_build instant_world (init repo_files))) = 0 \<and>
   length (build_invocations (clean_up instant_world (init repo_files))) = 0"
  using scenario_build_invocations[of instant_world "init repo_files"]
    scenario_build_invocations[of buildx_world "init repo_files"]
  by (simp add: init_def instant_world_simps buildx_world_def)

text \<open>
  Claim C4. The scenario script dispatches on its first argument: for each of the nine
  scenario names exactly the corresponding function runs after the banner, and for every
  other first argument, also a missing one, the script prints the usage text and exits
  with status 1 without a build.

  For each name the theorem gives the function that runs, all the script prints and
  runs, and its exit status; for any other argument it gives the lines of the banner
  and of the usage text, in the state in which the script exits with status 1.
\<close>

theorem dispatch_on_first_argument:
  fixes s :: state and w :: world and script_name :: string and rest args :: "string list"
  defines "b \<equiv> s\<lparr>trace := trace s @
     [Echo ''Docker Build Scenarios'', Echo ''================================'']\<rparr>"
  shows
  "scenarios script_name (''basic'' # rest) w s = basic_build w b \<and>
   trace (final (scenarios script_name (''basic'' # rest) w s)) =
     trace b @ [Echo ''Basic Build'', Run [''docker'', ''build'', ''-t'', ''test-build-cache'', ''.'']] \<and>
   exit_status (scenarios script_name (''basic'' # rest) w s) = build_status w (builds s) \<and>
   scenarios script_name (''no-cache'' # rest) w s = no_cache_build w b \<and>
   trace (final (scenarios script_name (''no-cache'' # rest) w s)) =
     trace b @ [Echo ''No Cache Build'',
                Run [''docker'', ''build'', ''--no-cache'', ''-t'', ''test-build-cache'', ''.'']] \<and>
   exit_status (scenarios script_name (''no-cache'' # rest) w s) = build_status w (builds s) \<and>
   scenarios script_name (''target'' # rest) w s = target_build w b \<and>
   trace (final (scenarios script_name (''target'' # rest) w s)) =
     trace b @ [Echo ''Target Build (deps stage only)'',
                Run [''docker'', ''build'', ''--target'', ''deps'', ''-t'', ''test-build-cache-deps'', ''.'']] \<and>
   exit_status (scenarios script_name (''target'' # rest) w s) = build_status w (builds s) \<and>
   scenarios script_name (''buildkit'' # rest) w s = buildkit_build w b \<and>
   trace (final (scenarios script_name (''buildkit'' # rest) w s)) =
     trace b @ [Echo ''BuildKit Build'', Run [''docker'', ''buildx'', ''version'']] @
     (if buildx w
      then [Run [''DOCKER_BUILDKIT=1'', ''docker'', ''build'', ''-t'', ''test-build-cache'', ''.'']]
      else [Echo ''BuildKit not available, using standard build'',
            Run [''docker'', ''build'', ''-t'', ''test-build-cache'', ''.'']]) \<and>
   exit_status (scenarios script_name (''buildkit'' # rest) w s) = build_status w (builds s) \<and>
   scenarios script_name (''multi-platform'' # rest) w s = multi_platform_build w b \<and>
   trace (final (scenarios script_name (''multi-platform'' # rest) w s)) =
     trace b @ [Echo ''Multi-platform Build'', Run [''docker'', ''buildx'', ''version'']] @
     (if buildx w
      then [Run [''docker'', ''buildx'', ''build'', ''--platform'', ''linux/amd64,linux/arm64'',
                 ''-t'', ''test-build-cache'', ''.'']]
      else [Echo ''Buildx not available, skipping multi-platform build'']) \<and>
   exit_status (scenarios script_name (''multi-platform'' # rest) w s) =
     (if buildx w then build_status w (builds s) else 0) \<and>
   scenarios script_name (''inline-cache'' # rest) w s = inline_cache_build w b \<and>
   trace (final (scenarios script_name (''inline-cache'' # rest) w s)) =
     trace b @ [Echo ''Inline Cache Build'', Run [''docker'', ''buildx'', ''version'']] @
     (if buildx w
      then [Run [''docker'', ''buildx'', ''build'', ''--cache-to'', ''type=inline'',
                 ''--cache-from'', ''test-build-cache'', ''-t'', ''test-build-cache'', ''--load'', ''.'']]
      else [Echo ''Buildx not available, using standard build'',
            Run [''docker'', ''build'', ''-t'', ''test-build-cache'', ''.'']]) \<and>
   exit_status (scenarios script_name (''inline-cache'' # rest) w s) = build_status w (builds s) \<and>
   scenarios script_name (''registry-cache'' # rest) w s = registry_cache_build w b \<and>
   trace (final (scenarios script_name (''registry-cache'' # rest) w s)) =
     trace b @ [Echo ''Registry Cache Build (simulated)'',
                Echo ''Note: This would typically push/pull from a registry'',
                Run [''docker'', ''buildx'', ''version'']] @
     (if buildx w
      then [Run [''docker'', ''buildx'', ''build'',
                 ''--cache-to'', ''type=local,dest=/tmp/docker-cache'',
                 ''--cache-from'', ''type=local,src=/tmp/docker-cache'',
                 ''-t'', ''test-build-cache'', ''--load'', ''.'']]
      else [Echo ''Buildx not available, using standard build'',
            Run [''docker'', ''build'', ''-t'', ''test-build-cache'', ''.'']]) \<and>
   exit_status (scenarios script_name (''registry-cache'' # rest) w s) = build_status w (builds s) \<and>
   scenarios script_name (''clean'' # rest) w s =
     Done 0 (b\<lparr>trace := trace b @
       [Echo ''Cleaning up'', Echo ''Removing test images...'',
        Run [''docker'', ''rmi'', ''-f'', ''test-build-cache''],
        Run [''docker'', ''rmi'', ''-f'', ''test-build-cache-deps''],
        Echo ''Pruning build cache...'',
        Run [''docker'', ''builder'', ''prune'', ''-f''],
        Echo ''Removing temporary cache...'',
        Run [''rm'', ''-rf'', ''/tmp/docker-cache''],
        Echo ''Cleanup complete'']\<rparr>) \<and>
   scenarios script_name (''all'' # rest) w s = run_all w b \<and>
   (args = [] \<or>
    hd args \<notin> {''basic'', ''no-cache'', ''target'', ''buildkit'', ''multi-platform'',
                 ''inline-cache'', ''registry-cache'', ''clean'', ''all''} \<longrightarrow>
    scenarios script_name args w s =
      Exit 1 (b\<lparr>trace := trace b @
        [Echo ''Available scenarios:'', Echo [],
         Echo ''  basic          - Standard docker build'',
         Echo ''  no-cache       - Build without using cache'',
         Echo ''  target         - Build specific stage only'',
         Echo ''  buildkit       - Use BuildKit features'',
         Echo ''  multi-platform - Multi-platform build'',
         Echo ''  inline-cache   - Build with inline cache export'',
         Echo ''  registry-cache - Use registry for cache'',
         Echo ''  clean          - Clean up images and cache'',
         Echo ''  all            - Run all scenarios'',
         Echo [],
         Echo (''Usage: '' @ script_name @ '' <scenario>'')]\<rparr>) \<and>
    builds (final (scenarios script_name args w s)) = builds s \<and>
    build_invocations (scenarios script_name args w s) = filter is_build (trace s))"
proof -
  have known:
    "scenarios script_name (''basic'' # rest) w s = basic_build w b"
    "scenarios script_name (''no-cache'' # rest) w s = no_cache_build w b"
    "scenarios script_name (''target'' # rest) w s = target_build w b"
    "scenarios script_name (''buildkit'' # rest) w s = buildkit_build w b"
    "scenarios script_name (''multi-platform'' # rest) w s = multi_platform_build w b"
    "scenarios script_name (''inline-cache'' # rest) w s = inline_cache_build w b"
    "scenarios script_name (''registry-cache'' # rest) w s = registry_cache_build w b"
    "scenarios script_name (''clean'' # rest) w s = clean_up w b"
    "scenarios script_name (''all'' # rest) w s = run_all w b"
    by (simp_all add: scenarios_def first_arg_def Let_def banner_eq seq_Done b_def)
  have bb: "builds b = builds s"
    by (simp add: b_def)
  have other:
    "args = [] \<or>
      hd args \<notin> {''basic'', ''no-cache'', ''target'', ''buildkit'', ''multi-platform'',
                   ''inline-cache'', ''registry-cache'', ''clean'', ''all''} \<longrightarrow>
     scenarios script_name args w s =
      Exit 1 (b\<lparr>trace := trace b @
        [Echo ''Available scenarios:'', Echo [],
         Echo ''  basic          - Standard docker build'',
         Echo ''  no-cache       - Build without using cache'',
         Echo ''  target         - Build specific stage only'',
         Echo ''  buildkit       - Use BuildKit features'',
         Echo ''  multi-platform - Multi-platform build'',
         Echo ''  inline-cache   - Build with inline cache export'',
         Echo ''  registry-cache - Use registry for cache'',
         Echo ''  clean          - Clean up images and cache'',
         Echo ''  all            - Run all scenarios'',
         Echo [],
         Echo (''Usage: '' @ script_name @ '' <scenario>'')]\<rparr>) \<and>
     builds (final (scenarios script_name args w s)) = builds s \<and>
     build_invocations (scenarios script_name args w s) = filter is_build (trace s)"
  proof (rule impI)
    assume a: "args = [] \<or>
      hd args \<notin> {''basic'', ''no-cache'', ''target'', ''buildkit'', ''multi-platform'',
                   ''inline-cache'', ''registry-cache'', ''clean'', ''all''}"
    have f: "first_arg args \<notin> {''basic'', ''no-cache'', ''target'', ''buildkit'', ''multi-platform'',
                   ''inline-cache'', ''registry-cache'', ''clean'', ''all''}"
      using a by (cases args) (auto simp: first_arg_def)
    from usage_exit[OF f refl, of script_name w s]
    show "scenarios script_name args w s =
      Exit 1 (b\<lparr>trace := trace b @
        [Echo ''Available scenarios:'', Echo [],
         Echo ''  basic          - Standard docker build'',
         Echo ''  no-cache       - Build without using cache'',
         Echo ''  target         - Build specific stage only'',
         Echo ''  buildkit       - Use BuildKit features'',
         Echo ''  multi-platform - Multi-platform build'',
         Echo ''  inline-cache   - Build with inline cache export'',
         Echo ''  registry-cache - Use registry for cache'',
         Echo ''  clean          - Clean up images and cache'',
         Echo ''  all            - Run all scenarios'',
         Echo [],
         Echo (''Usage: '' @ script_name @ '' <scenario>'')]\<rparr>) \<and>
     builds (final (scenarios script_name args w s)) = builds s \<and>
     build_invocations (scenarios script_name args w s) = filter is_build (trace s)"
      by (simp add: b_def build_invocations_def is_build_def)
  qed
  show ?thesis
    by (intro conjI other)
       (simp_all add: known bb basic_build_run no_cache_build_run target_build_run
          buildkit_build_run multi_platform_build_run inline_cache_build_run
          registry_cache_build_run clean_up_eq)
qed

theorem dispatch_on_first_argument_witness:
  "scenarios ''./build-scenarios.sh'' [] instant_world (init repo_files) =
     Exit 1 \<lparr>trace =
        [Echo ''Docker Build Scenarios'', Echo ''================================'',
         Echo ''Available scenarios:'', Echo [],
         Echo ''  basic          - Standard docker build'',
         Echo ''  no-cache       - Build without using cache'',
         Echo ''  target         - Build specific stage only'',
         Echo ''  buildkit       - Use BuildKit features'',
         Echo ''  multi-platform - Multi-platform build'',
         Echo ''  inline-cache   - Build with inline cache export'',
         Echo ''  registry-cache - Use registry for cache'',
         Echo ''  clean          - Clean up images and cache'',
         Echo ''  all            - Run all scenarios'',
         Echo [],
         Echo ''Usage: ./build-scenarios.sh <scenario>''],
        files = repo_files, reads = 0, builds = 0\<rparr> \<and>
   exit_status (scenarios ''./build-scenarios.sh'' [''deploy''] instant_world (init repo_files)) = 1 \<and>
   build_invocations (scenarios ''./build-scenarios.sh'' [''deploy''] instant_world (init repo_files)) = [] \<and>
   trace (final (scenarios ''./build-scenarios.sh'' [''basic''] instant_world (init repo_files))) =
     [Echo ''Docker Build Scenarios'', Echo ''================================'',
      Echo ''Basic Build'', Run [''docker'', ''build'', ''-t'', ''test-build-cache'', ''.'']] \<and>
   exit_status (scenarios ''./build-scenarios.sh'' [''basic''] instant_world (init repo_files)) = 0"
proof -
  have d: "hd [''deploy''] \<notin> {''basic'', ''no-cache'', ''target'', ''buildkit'', ''multi-platform'',
                 ''inline-cache'', ''registry-cache'', ''clean'', ''all''}"
    by simp
  from dispatch_on_first_argument[of "''./build-scenarios.sh''" "[]" instant_world "init repo_files" "[]"]
  have e: "scenarios ''./build-scenarios.sh'' [] instant_world (init repo_files) =
     Exit 1 \<lparr>trace =
        [Echo ''Docker Build Scenarios'', Echo ''================================'',
         Echo ''Available scenarios:'', Echo [],
         Echo ''  basic          - Standard docker build'',
         Echo ''  no-cache       - Build without using cache'',
         Echo ''  target         - Build specific stage only'',
         Echo ''  buildkit       - Use BuildKit features'',
         Echo ''  multi-platform - Multi-platform build'',
         Echo ''  inline-cache   - Build with inline cache export'',
         Echo ''  registry-cache - Use registry for cache'',
         Echo ''  clean          - Clean up images and cache'',
         Echo ''  all            - Run all scenarios'',
         Echo [],
         Echo ''Usage: ./build-scenarios.sh <scenario>''],
        files = repo_files, reads = 0, builds = 0\<rparr>"
    by (simp add: init_def)
  from dispatch_on_first_argument[of "''./build-scenarios.sh''" "[]" instant_world "init repo_files"
      "[''deploy'']"] d
  have u: "exit_status (scenarios ''./build-scenarios.sh'' [''deploy''] instant_world
             (init repo_files)) = 1 \<and>
           build_invocations (scenarios ''./build-scenarios.sh'' [''deploy''] instant_world
             (init repo_files)) = []"
    by (simp add: init_def build_invocations_def is_build_def)
  from dispatch_on_first_argument[of "''./build-scenarios.sh''" "[]" instant_world "init repo_files" "[]"]
  have k: "trace (final (scenarios ''./build-scenarios.sh'' [''basic''] instant_world (init repo_files))) =
     [Echo ''Docker Build Scenarios'', Echo ''================================'',
      Echo ''Basic Build'', Run [''docker'', ''build'', ''-t'', ''test-build-cache'', ''.'']] \<and>
   exit_status (scenarios ''./build-scenarios.sh'' [''basic''] instant_world (init repo_files)) = 0"
    by (simp add: init_def instant_world_simps basic_build_run)
  from e u k show ?thesis
    by blast
qed

section \<open>Properties of the HTTP service\<close>

text \<open>What each route answers.\<close>

lemmas res_defs = new_res_def res_status_def res_json_def run_timers_def handle_def dispatch_def

lemma handle_home:
  "handle cfg Home rt =
     [\<lparr>code = 200, content = JsonBody (JObj
        [(''message'', JStr ''Docker Build Cache Test Application''),
         (''buildInfo'', json_of_build_info (buildInfo cfg)),
         (''features'', json_of_features (features cfg)),
         (''links'', JObj [(''health'', JStr ''/health''), (''info'', JStr ''/info''),
                          (''simulate'', JStr ''/simulate'')])])\<rparr>]"
  by (simp add: res_defs home_def)

lemma handle_info:
  "handle cfg Info rt =
     [\<lparr>code = 200, content = JsonBody (JObj
        [(''name'', JStr ''test-build-cache''),
         (''description'', JStr ''Application for testing Docker build caching strategies''),
         (''buildInfo'', json_of_build_info (buildInfo cfg)),
         (''features'', json_of_features (features cfg)),
         (''system'', JObj [(''nodeVersion'', JStr (nodeVersion rt)),
                           (''platform'', JStr (platform rt)),
                           (''arch'', JStr (arch rt)),
                           (''uptime'', uptime rt),
                           (''memoryUsage'', memoryUsage rt)])])\<rparr>]"
  by (simp add: res_defs info_def)

lemma handle_health:
  "handle cfg Health rt =
     [\<lparr>code = 200, content = JsonBody (JObj
        [(''status'', JStr ''healthy''),
         (''timestamp'', JStr (isoString rt)),
         (''uptime'', uptime rt),
         (''environment'', JStr (or_default (env rt ''NODE_ENV'') ''development''))])\<rparr>]"
  by (simp add: res_defs health_def)

lemma simulate_eq:
  "simulate task rt r =
     (if task = ''cpu'' \<or> task = ''memory'' then
        (res_json (JObj [(''task'', JStr task),
                         (''duration'', JNum (Date_now rt 1 - Date_now rt 0)),
                         (''message'', JStr (task @ '' simulation completed''))]) r, [])
      else if task = ''io'' then
        (r, [(100, \<lambda>rt' r. res_json (JObj [(''task'', JStr task),
                                (''duration'', JNum (Date_now rt' 1 - Date_now rt 0)),
                                (''message'', JStr ''I/O simulation completed'')]) r)])
      else (res_json (JObj [(''error'', JStr ''Unknown task. Use: cpu, memory, or io'')])
              (res_status 400 r), []))"
  by (simp add: simulate_def Let_def)

lemma handle_simulate:
  "handle cfg (Simulate task) rt =
     (if task = ''cpu'' \<or> task = ''memory'' \<or> task = ''io'' then
        [\<lparr>code = 200, content = JsonBody (JObj
           [(''task'', JStr task),
            (''duration'', JNum (Date_now rt 1 - Date_now rt 0)),
            (''message'', JStr (if task = ''io'' then ''I/O simulation completed''
                                else task @ '' simulation completed''))])\<rparr>]
      else
        [\<lparr>code = 400, content = JsonBody (JObj
           [(''error'', JStr ''Unknown task. Use: cpu, memory, or io'')])\<rparr>])"
  by (simp add: res_defs simulate_eq)

section \<open>The claims about the HTTP service\<close>

text \<open>
  Claim C5. A request to \<^verbatim>\<open>/simulate/:task\<close> whose task is not \<^verbatim>\<open>cpu\<close>, \<^verbatim>\<open>memory\<close> or \<^verbatim>\<open>io\<close>
  is answered with status 400 and a JSON error body; for one of the three tasks the answer is
  a JSON body with the task name, a non-negative duration and a completion message.

  The duration is the difference of two readings of \<^verbatim>\<open>Date.now()\<close>, the wall clock. Where
  the clock is set back by 5 milliseconds between the readings, the handler answers with
  a duration of -5.
\<close>

theorem negative_duration_when_clock_set_back:
  "handle example_config (Simulate ''cpu'') clock_set_back_runtime =
     [\<lparr>code = 200, content = JsonBody (JObj
        [(''task'', JStr ''cpu''), (''duration'', JNum (- 5)),
         (''message'', JStr ''cpu simulation completed'')])\<rparr>]"
  by (simp add: handle_simulate clock_set_back_runtime_def example_runtime_def)

text \<open>
  Claim C5, amended. A request to \<^verbatim>\<open>/simulate/:task\<close> whose task is not \<^verbatim>\<open>cpu\<close>, \<^verbatim>\<open>memory\<close> or
  \<^verbatim>\<open>io\<close> is answered with status 400 and a JSON error body; for one of the three tasks the
  answer has status 200 and a JSON body with the task name, a completion message, and a
  duration that is the second reading of \<^verbatim>\<open>Date.now()\<close> minus the first, which the handler
  took when it started.
\<close>

theorem simulate_responses:
  "(task \<notin> {''cpu'', ''memory'', ''io''} \<longrightarrow>
      handle cfg (Simulate task) rt =
        [\<lparr>code = 400, content = JsonBody (JObj
           [(''error'', JStr ''Unknown task. Use: cpu, memory, or io'')])\<rparr>]) \<and>
   (task \<in> {''cpu'', ''memory'', ''io''} \<longrightarrow>
      handle cfg (Simulate task) rt =
        [\<lparr>code = 200, content = JsonBody (JObj
           [(''task'', JStr task),
            (''duration'', JNum (Date_now rt 1 - Date_now rt 0)),
            (''message'', JStr (if task = ''io'' then ''I/O simulation completed''
                                else task @ '' simulation completed''))])\<rparr>])"
  by (auto simp add: handle_simulate)

theorem simulate_responses_witness:
  "handle example_config (Simulate ''disk'') example_runtime =
     [\<lparr>code = 400, content = JsonBody (JObj
        [(''error'', JStr ''Unknown task. Use: cpu, memory, or io'')])\<rparr>] \<and>
   handle example_config (Simulate ''io'') example_runtime =
     [\<lparr>code = 200, content = JsonBody (JObj
        [(''task'', JStr ''io''), (''duration'', JNum 120),
         (''message'', JStr ''I/O simulation completed'')])\<rparr>] \<and>
   handle example_config (Simulate ''memory'') example_runtime =
     [\<lparr>code = 200, content = JsonBody (JObj
        [(''task'', JStr ''memory''), (''duration'', JNum 120),
         (''message'', JStr ''memory simulation completed'')])\<rparr>]"
  using simulate_responses[of "''disk''" example_config example_runtime]
    simulate_responses[of "''io''" example_config example_runtime]
    simulate_responses[of "''memory''" example_config example_runtime]
  by (simp add: example_runtime_def)

text \<open>
  Claim C6. Every route of the service (\<^verbatim>\<open>/\<close>, \<^verbatim>\<open>/health\<close>, \<^verbatim>\<open>/info\<close>, \<^verbatim>\<open>/simulate/:task\<close>)
  responds, and every body it sends is a JSON body.
\<close>

theorem every_route_responds_json:
  "handle cfg q rt \<noteq> [] \<and> list_all (\<lambda>r. is_json (content r)) (handle cfg q rt)"
  by (cases q) (simp_all add: handle_home handle_info handle_health handle_simulate)

text \<open>
  Claim C9. Every request to \<^verbatim>\<open>/simulate/:task\<close> causes exactly one response. For \<^verbatim>\<open>io\<close> the
  handler returns with nothing sent and one timer of 100 milliseconds set, whose callback
  sends the response; for every other task the handler has sent its one response when it
  returns and has set no timer.
\<close>

theorem simulate_responds_once:
  "length (handle cfg (Simulate task) rt) = 1 \<and>
   (task = ''io'' \<longrightarrow>
      sent (fst (simulate task rt new_res)) = [] \<and>
      map fst (snd (simulate task rt new_res)) = [100]) \<and>
   (task \<noteq> ''io'' \<longrightarrow>
      length (sent (fst (simulate task rt new_res))) = 1 \<and>
      snd (simulate task rt new_res) = [])"
  by (simp add: handle_simulate simulate_eq new_res_def res_json_def res_status_def)

theorem simulate_responds_once_witness:
  "length (handle example_config (Simulate ''io'') example_runtime) = 1 \<and>
   sent (fst (simulate ''io'' example_runtime new_res)) = [] \<and>
   map fst (snd (simulate ''io'' example_runtime new_res)) = [100] \<and>
   length (handle example_config (Simulate ''cpu'') example_runtime) = 1 \<and>
   length (sent (fst (simulate ''cpu'' example_runtime new_res))) = 1 \<and>
   snd (simulate ''cpu'' example_runtime new_res) = [] \<and>
   length (handle example_config (Simulate ''disk'') example_runtime) = 1"
  using simulate_responds_once[of example_config "''io''" example_runtime]
    simulate_responds_once[of example_config "''cpu''" example_runtime]
    simulate_responds_once[of example_config "''disk''" example_runtime]
  by simp

lemma carried_home_info:
  assumes "q = Home \<or> q = Info"
  shows "map carried (handle cfg q rt) =
           [(Some (json_of_build_info (buildInfo cfg)), Some (json_of_features (features cfg)))]"
  using assms by (auto simp: handle_home handle_info)

text \<open>
  Claim C10. The configuration is computed once, when the process starts, and no
  handler changes it: within one server process every response to \<^verbatim>\<open>/\<close> and to \<^verbatim>\<open>/info\<close>
  carries the same \<^verbatim>\<open>buildInfo\<close> and \<^verbatim>\<open>features\<close>, those of the configuration loaded at the
  start, whatever the runtime reports at the time of the request.
\<close>

theorem config_shared_by_responses:
  assumes "i < length requests" and "fst (requests ! i) \<in> {Home, Info}"
    and "j < length requests" and "fst (requests ! j) \<in> {Home, Info}"
  shows "map carried (server env0 load_time requests ! i) =
           [(Some (json_of_build_info (buildInfo (load_config env0 load_time))),
             Some (json_of_features (features (load_config env0 load_time))))] \<and>
         map carried (server env0 load_time requests ! i) =
           map carried (server env0 load_time requests ! j)"
proof -
  have "map carried (server env0 load_time requests ! k) =
           [(Some (json_of_build_info (buildInfo (load_config env0 load_time))),
             Some (json_of_features (features (load_config env0 load_time))))]"
    if "k < length requests" and "fst (requests ! k) \<in> {Home, Info}" for k
  proof -
    obtain q rt where r: "requests ! k = (q, rt)"
      by (cases "requests ! k")
    with that have "q = Home \<or> q = Info"
      by simp
    from carried_home_info[OF this] r that show ?thesis
      by (simp add: server_def Let_def)
  qed
  with assms show ?thesis
    by simp
qed

theorem config_shared_by_responses_witness:
  "map carried (server [''GIT_COMMIT'' \<mapsto> ''abc1234''] ''2023-11-14T22:13:20.000Z''
      [(Home, example_runtime), (Health, example_runtime),
       (Info, example_runtime\<lparr>uptime := JNum 99\<rparr>)] ! 0) =
   map carried (server [''GIT_COMMIT'' \<mapsto> ''abc1234''] ''2023-11-14T22:13:20.000Z''
      [(Home, example_runtime), (Health, example_runtime),
       (Info, example_runtime\<lparr>uptime := JNum 99\<rparr>)] ! 2) \<and>
   map carried (server [''GIT_COMMIT'' \<mapsto> ''abc1234''] ''2023-11-14T22:13:20.000Z''
      [(Home, example_runtime), (Health, example_runtime),
       (Info, example_runtime\<lparr>uptime := JNum 99\<rparr>)] ! 0) =
     [(Some (JObj [(''version'', JStr ''1.0.0''), (''buildTime'', JStr ''2023-11-14T22:13:20.000Z''),
                   (''gitCommit'', JStr ''abc1234'')]),
       Some (JObj [(''enableMetrics'', JBool False), (''enableDebugMode'', JBool False),
                   (''enableCaching'', JBool True)]))]"
  using config_shared_by_responses[of 0
      "[(Home, example_runtime), (Health, example_runtime), (Info, example_runtime\<lparr>uptime := JNum 99\<rparr>)]"
      2 "[''GIT_COMMIT'' \<mapsto> ''abc1234'']" "''2023-11-14T22:13:20.000Z''"]
  by (auto simp add: load_config_def or_default_def json_of_build_info_def json_of_features_def)

end
